theory Spec2Isabelle
  imports Complex_Main
begin

section \<open>JavaScript values and the string operations the handlers use\<close>

text \<open>
  The values that \<open>JSON.parse\<close> and property reads produce. A number is a rational: every
  finite double is one, and the handlers only compare numbers with \<open>0\<close> and \<open>3\<close>. An object
  lists its own properties. A character is a UTF-16 code unit below 256.
\<close>

datatype jsval =
    JUndefined
  | JNull
  | JBool bool
  | JNum rat
  | JStr string
  | JArr "jsval list"
  | JObj "(string \<times> jsval) list"

text \<open>\<open>!v\<close> is \<open>\<not> truthy v\<close>.\<close>

fun truthy :: "jsval \<Rightarrow> bool" where
  "truthy JUndefined = False"
| "truthy JNull = False"
| "truthy (JBool b) = b"
| "truthy (JNum r) = (r \<noteq> 0)"
| "truthy (JStr s) = (s \<noteq> [])"
| "truthy (JArr xs) = True"
| "truthy (JObj kvs) = True"

fun show_nat :: "nat \<Rightarrow> string" where
  "show_nat n =
     (if n < 10 then [char_of (48 + n)]
      else show_nat (n div 10) @ [char_of (48 + n mod 10)])"

declare show_nat.simps [simp del]

text \<open>
  A number in a template literal, for an integer: its decimal numeral. (From \<open>10 ^ 21\<close> on
  an engine prints the exponent form, \<open>1e+21\<close>; the prompts are the only use.)
\<close>

definition show_int :: "int \<Rightarrow> string" where
  "show_int i = (if i < 0 then ''-'' @ show_nat (nat (- i)) else show_nat (nat i))"

fun join_lines :: "string list \<Rightarrow> string" where
  "join_lines [] = []"
| "join_lines [l] = l"
| "join_lines (l # ls) = l @ [CHR 0x0A] @ join_lines ls"

text \<open>
  \<open>v.k\<close> for the property names the handlers read (\<open>candidates\<close>, \<open>content\<close>, \<open>parts\<close>,
  \<open>text\<close>, \<open>options\<close>, \<open>correctOption\<close>, \<open>choices\<close>, \<open>message\<close>), none of which a
  primitive or an array carries. \<open>None\<close> is the TypeError of reading a property of
  \<open>null\<close> or \<open>undefined\<close>.
\<close>

fun get_prop :: "jsval \<Rightarrow> string \<Rightarrow> jsval option" where
  "get_prop JUndefined k = None"
| "get_prop JNull k = None"
| "get_prop (JObj kvs) k = Some (case map_of kvs k of None \<Rightarrow> JUndefined | Some v \<Rightarrow> v)"
| "get_prop v k = Some JUndefined"

text \<open>\<open>v[i]\<close> for a literal index.\<close>

fun get_index :: "jsval \<Rightarrow> nat \<Rightarrow> jsval option" where
  "get_index JUndefined i = None"
| "get_index JNull i = None"
| "get_index (JArr xs) i = Some (if i < length xs then xs ! i else JUndefined)"
| "get_index (JStr s) i = Some (if i < length s then JStr [s ! i] else JUndefined)"
| "get_index (JObj kvs) i = get_prop (JObj kvs) (show_nat i)"
| "get_index v i = Some JUndefined"

fun is_array :: "jsval \<Rightarrow> bool" where
  "is_array (JArr xs) = True"
| "is_array v = False"

fun is_number :: "jsval \<Rightarrow> bool" where
  "is_number (JNum r) = True"
| "is_number v = False"

fun array_length :: "jsval \<Rightarrow> nat" where
  "array_length (JArr xs) = length xs"
| "array_length v = 0"

fun number_value :: "jsval \<Rightarrow> rat" where
  "number_value (JNum r) = r"
| "number_value v = 0"

text \<open>White space of \<open>String.prototype.trim\<close> among the code units below 256.\<close>

definition is_space :: "char \<Rightarrow> bool" where
  "is_space c = (of_char c \<in> {9, 10, 11, 12, 13, 32, 160 :: nat})"

definition trim :: "string \<Rightarrow> string" where
  "trim s = rev (dropWhile is_space (rev (dropWhile is_space s)))"

definition starts_with :: "string \<Rightarrow> string \<Rightarrow> bool" where
  "starts_with pat s = (take (length pat) s = pat)"

text \<open>\<open>s.replace(pat, '')\<close> with a string pattern: the first occurrence goes.\<close>

fun remove_first :: "string \<Rightarrow> string \<Rightarrow> string" where
  "remove_first pat [] = []"
| "remove_first pat (c # cs) =
     (if starts_with pat (c # cs) then drop (length pat) (c # cs)
      else c # remove_first pat cs)"

text \<open>
  \<open>s.replace(/pat\n?/g, '')\<close> for a literal, non-empty \<open>pat\<close>: scanning from the left, every
  occurrence goes, with the line feed after it when there is one.
\<close>

definition drop_newline :: "string \<Rightarrow> string" where
  "drop_newline s = (case s of [] \<Rightarrow> [] | c # cs \<Rightarrow> if c = CHR 0x0A then cs else s)"

function remove_all :: "string \<Rightarrow> string \<Rightarrow> string" where
  "remove_all pat s =
     (if s = [] \<or> pat = [] then s
      else if starts_with pat s then remove_all pat (drop_newline (drop (length pat) s))
      else hd s # remove_all pat (tl s))"
  by pat_completeness auto
termination
proof (relation "measure (\<lambda>(pat, s). length s)")
  show "wf (measure (\<lambda>(pat, s). length s))" by simp
next
  fix pat s :: string
  assume "\<not> (s = [] \<or> pat = [])"
  then have "length (drop (length pat) s) < length s" by simp
  moreover have "length (drop_newline t) \<le> length t" for t
    by (simp add: drop_newline_def split: list.splits)
  ultimately have "length (drop_newline (drop (length pat) s)) < length s"
    using le_less_trans by blast
  then show "((pat, drop_newline (drop (length pat) s)), (pat, s)) \<in> measure (\<lambda>(pat, s). length s)"
    by simp
next
  fix pat s :: string
  assume "\<not> (s = [] \<or> pat = [])"
  then show "((pat, tl s), (pat, s)) \<in> measure (\<lambda>(pat, s). length s)"
    by (cases s) simp_all
qed

declare remove_all.simps [simp del]

text \<open>\<open>s.substring(a, b)\<close>.\<close>

definition substring :: "nat \<Rightarrow> nat \<Rightarrow> string \<Rightarrow> string" where
  "substring a b s =
     (let a' = min a (length s); b' = min b (length s)
      in take (max a' b' - min a' b') (drop (min a' b') s))"

text \<open>\<open>toUpperCase\<close> on ASCII, which is all a base-36 numeral contains.\<close>

definition to_upper :: "char \<Rightarrow> char" where
  "to_upper c = (if 97 \<le> (of_char c :: nat) \<and> (of_char c :: nat) \<le> 122
                 then char_of ((of_char c :: nat) - 32) else c)"

definition toUpperCase :: "string \<Rightarrow> string" where
  "toUpperCase s = map to_upper s"

section \<open>Room codes\<close>

text \<open>
  \<open>Math.random()\<close> returns a double in \<open>[0, 1)\<close>: the pair \<open>(m, e)\<close> with \<open>m < 2 ^ e\<close> stands
  for \<open>m / 2 ^ e\<close>. \<open>toString36\<close> is \<open>Number.prototype.toString(36)\<close> on such a value, as
  the exact base-36 expansion: \<open>0\<close>, or \<open>0.\<close> followed by the digits of the expansion, which
  ends after at most \<open>e\<close> digits. An engine prints the shortest numeral that reads back as
  the same double, which for a double with a long expansion is a rounded prefix of the
  exact one (\<open>0.6404320987654322\<close> is printed \<open>0.n2\<close>). The two agree on \<open>0\<close> and on
  \<open>1/2\<close> (\<open>0.i\<close>), the values the evaluations below use; what the last section proves of
  every room code it proves of every numeral of this shape, so of the engine's as well.
\<close>

definition digit36 :: "nat \<Rightarrow> char" where
  "digit36 d = (if d < 10 then char_of (48 + d) else char_of (87 + d))"

fun frac_digits36 :: "nat \<Rightarrow> nat \<Rightarrow> nat \<Rightarrow> string" where
  "frac_digits36 0 m e = []"
| "frac_digits36 (Suc k) m e =
     (if m = 0 then []
      else digit36 (36 * m div 2 ^ e) # frac_digits36 k (36 * m mod 2 ^ e) e)"

definition toString36 :: "nat \<times> nat \<Rightarrow> string" where
  "toString36 r = (case r of (m, e) \<Rightarrow>
     if m = 0 then ''0'' else ''0.'' @ frac_digits36 e m e)"

text \<open>\<open>Math.random().toString(36).substring(2, 8).toUpperCase()\<close>, in both handlers.\<close>

definition generate_room_code :: "nat \<times> nat \<Rightarrow> string" where
  "generate_room_code r = toUpperCase (substring 2 8 (toString36 r))"

definition is_upper_alnum :: "char \<Rightarrow> bool" where
  "is_upper_alnum c =
     ((48 \<le> (of_char c :: nat) \<and> (of_char c :: nat) \<le> 57) \<or>
      (65 \<le> (of_char c :: nat) \<and> (of_char c :: nat) \<le> 90))"

section \<open>Requests, responses and the external collaborators\<close>

record user =
  user_id :: string
  email :: string

datatype complexity = Easy | Medium | Hard

fun complexity_name :: "complexity \<Rightarrow> string" where
  "complexity_name Easy = ''Easy''"
| "complexity_name Medium = ''Medium''"
| "complexity_name Hard = ''Hard''"

fun complexity_lower :: "complexity \<Rightarrow> string" where
  "complexity_lower Easy = ''easy''"
| "complexity_lower Medium = ''medium''"
| "complexity_lower Hard = ''hard''"

text \<open>
  The interface \<open>QuizParams\<close>, which the handlers give to the body of the request as its
  type; the two numbers are integers. A body that does not have this type is no value of
  the record: where \<open>complexity\<close> is not a string, line 98 of the Gemini-backed handler
  (\<open>complexity.toLowerCase()\<close>) throws and the OpenAI-backed handler, which only prints
  it, goes on. What is stated below of a request is stated of a request with a body of
  this type.
\<close>

record QuizParams =
  subject :: string
  topic :: string
  numQuestions :: int
  complexity :: complexity
  timePerQuestion :: int
  title :: "string option"
  description :: "string option"

record request =
  req_method :: string
  authorization :: "string option"
  json :: QuizParams

text \<open>
  What the handlers throw, one constructor for each message of the two sources;
  \<open>RuntimeException\<close> is an exception the runtime raises itself (a TypeError on a property
  read or a call of a missing function, a rejected \<open>fetch\<close> or body read), whose message is the engine's.
\<close>

datatype failure =
    NoAuthorizationHeader
  | AuthenticationFailed
  | TeachersOnly
  | GeminiKeyNotConfigured
  | GeminiApiError nat
  | InvalidGeminiResponse
  | FailedToParse
  | NoValidQuestions
  | InvalidQuestionStructure nat
  | InvalidCorrectOption nat
  | FailedToCreateQuiz
  | FailedToCreateQuestions
  | OpenAIKeyNotConfigured
  | OpenAIApiError nat
  | InvalidJSON
  | FailedToSaveQuestions
  | RuntimeException


record quiz_summary =
  quiz_id :: nat
  quiz_title :: string
  quiz_description :: string
  roomCode :: string
  questionsCount :: nat

datatype body =
    Preflight
  | Success quiz_summary "jsval list"
  | Failure failure

record response =
  status :: nat
  body :: body

text \<open>The row a handler inserts into \<open>quizzes\<close>, and the row the store keeps.\<close>

record quiz_insert =
  ins_title :: string
  ins_description :: string
  ins_time_per_question :: int
  ins_room_code :: string
  ins_created_by :: string
  ins_quiz_type :: string

record quiz_row =
  row_id :: nat
  row_title :: string
  row_description :: string
  time_per_question :: int
  room_code :: string
  created_by :: string
  quiz_type :: string

record question_row =
  q_quiz_id :: nat
  q_text :: jsval
  q_options :: jsval
  correct_option :: jsval
  order_num :: nat

record store =
  quizzes :: "quiz_row list"
  quiz_questions :: "question_row list"
  next_id :: nat

text \<open>What a \<open>fetch\<close> of a generation backend gives.\<close>

datatype fetch_result =
    FetchRejected
  | HttpStatus nat
  | HttpUnreadable
  | HttpJson jsval

text \<open>
  The behaviour of the collaborators during one request: the identity provider, the
  \<open>teachers\<close> lookup (\<open>True\<close>: a row and no error), the secrets, the two generation backends
  (their reply to a prompt), \<open>JSON.parse\<close> (\<open>None\<close>: it
  throws), the random source, and whether the store accepts an insert and applies a delete.
\<close>

record env =
  auth_getUser :: "string \<Rightarrow> user option"
  teacher_found :: "string \<Rightarrow> bool"
  GEMINI_API_KEY :: "string option"
  OPENAI_API_KEY :: "string option"
  gemini_fetch :: "string \<Rightarrow> fetch_result"
  openai_fetch :: "string \<Rightarrow> fetch_result"
  JSON_parse :: "string \<Rightarrow> jsval option"
  Math_random :: "nat \<times> nat"
  quiz_insert_ok :: "quiz_insert \<Rightarrow> bool"
  questions_insert_ok :: "question_row list \<Rightarrow> bool"
  quiz_delete_ok :: "nat \<Rightarrow> bool"

datatype call =
    AuthGetUser string
  | TeacherLookup string
  | GeminiFetch string
  | OpenAIFetch string
  | InsertQuiz quiz_insert
  | InsertQuestions "question_row list"
  | DeleteQuiz nat

record outcome =
  response :: response
  final_store :: store
  calls :: "call list"

subsection \<open>The store\<close>

text \<open>
  \<open>from('quizzes').insert(row).select().single()\<close>: the stored row with the identifier the
  store assigned, or an error and no change.
\<close>

definition insert_quiz :: "env \<Rightarrow> quiz_insert \<Rightarrow> store \<Rightarrow> quiz_row option \<times> store" where
  "insert_quiz ev r st =
     (if quiz_insert_ok ev r then
        (let row = \<lparr>row_id = next_id st, row_title = ins_title r,
                    row_description = ins_description r,
                    time_per_question = ins_time_per_question r,
                    room_code = ins_room_code r, created_by = ins_created_by r,
                    quiz_type = ins_quiz_type r\<rparr>
         in (Some row, st\<lparr>quizzes := quizzes st @ [row], next_id := Suc (next_id st)\<rparr>))
      else (None, st))"

text \<open>\<open>from('quiz_questions').insert(rows)\<close>: all rows or none; \<open>True\<close> when there is no error.\<close>

definition insert_questions :: "env \<Rightarrow> question_row list \<Rightarrow> store \<Rightarrow> bool \<times> store" where
  "insert_questions ev rows st =
     (if questions_insert_ok ev rows
      then (True, st\<lparr>quiz_questions := quiz_questions st @ rows\<rparr>)
      else (False, st))"

text \<open>
  \<open>from('quizzes').delete().eq('id', qid)\<close>: the store removes the quiz and the questions
  it owns, or answers with an error and removes nothing. The handlers do not look at the
  answer, so only the store is returned.
\<close>

definition delete_quiz :: "env \<Rightarrow> nat \<Rightarrow> store \<Rightarrow> store" where
  "delete_quiz ev qid st =
     (if quiz_delete_ok ev qid
      then st\<lparr>quizzes := filter (\<lambda>q. row_id q \<noteq> qid) (quizzes st),
              quiz_questions := filter (\<lambda>q. q_quiz_id q \<noteq> qid) (quiz_questions st)\<rparr>
      else st)"

subsection \<open>Pieces the two handlers write the same way\<close>

text \<open>\<open>!s\<close> for an optional string: absent or empty.\<close>

definition falsy_string :: "string option \<Rightarrow> bool" where
  "falsy_string s = (case s of None \<Rightarrow> True | Some t \<Rightarrow> t = [])"

text \<open>\<open>s || d\<close> for an optional string \<open>s\<close>.\<close>

definition or_else :: "string option \<Rightarrow> string \<Rightarrow> string" where
  "or_else s d = (case s of None \<Rightarrow> d | Some t \<Rightarrow> if t = [] then d else t)"

definition default_title :: "QuizParams \<Rightarrow> string" where
  "default_title params = ''AI Generated: '' @ subject params @ '' - '' @ topic params"

definition default_description :: "QuizParams \<Rightarrow> string" where
  "default_description params =
     ''AI-generated quiz on '' @ topic params @ '' ('' @
     complexity_name (complexity params) @ '' level)''"

definition failed :: "nat \<Rightarrow> failure \<Rightarrow> store \<Rightarrow> call list \<Rightarrow> outcome" where
  "failed code f st cs =
     \<lparr>response = \<lparr>status = code, body = Failure f\<rparr>, final_store = st, calls = cs\<rparr>"

text \<open>
  \<open>questions.map((q, index) => ({quiz_id, text: q.text, options: q.options,
  correct_option: q.correctOption, order_num: index + 1}))\<close>, from position \<open>index\<close> on;
  \<open>None\<close> is the TypeError of \<open>q.text\<close> on \<open>null\<close>.
\<close>

definition question_row_of :: "nat \<Rightarrow> nat \<Rightarrow> jsval \<Rightarrow> question_row option" where
  "question_row_of qid index q =
     (case (get_prop q ''text'', get_prop q ''options'', get_prop q ''correctOption'') of
        (Some t, Some opts, Some co) \<Rightarrow>
          Some \<lparr>q_quiz_id = qid, q_text = t, q_options = opts, correct_option = co,
                order_num = index + 1\<rparr>
      | _ \<Rightarrow> None)"

fun question_rows :: "nat \<Rightarrow> nat \<Rightarrow> jsval list \<Rightarrow> question_row list option" where
  "question_rows qid index [] = Some []"
| "question_rows qid index (q # qs) =
     (case question_row_of qid index q of
        None \<Rightarrow> None
      | Some row \<Rightarrow>
          (case question_rows qid (Suc index) qs of
             None \<Rightarrow> None
           | Some rows \<Rightarrow> Some (row # rows)))"

section \<open>The Gemini-backed handler (supabase/functions/generate-quiz-ai/index.ts)\<close>

text \<open>
  The reads of lines 149 to 154: the three guarded reads, then
  \<open>geminiData.candidates[0].content.parts[0].text\<close>, on which \<open>substring\<close> is called.
\<close>

definition gemini_text :: "jsval \<Rightarrow> failure + string" where
  "gemini_text geminiData =
     (case get_prop geminiData ''candidates'' of
        None \<Rightarrow> Inl RuntimeException
      | Some candidates \<Rightarrow>
          if \<not> truthy candidates then Inl InvalidGeminiResponse
          else (case get_index candidates 0 of
             None \<Rightarrow> Inl RuntimeException
           | Some c0 \<Rightarrow>
               if \<not> truthy c0 then Inl InvalidGeminiResponse
               else (case get_prop c0 ''content'' of
                  None \<Rightarrow> Inl RuntimeException
                | Some content \<Rightarrow>
                    if \<not> truthy content then Inl InvalidGeminiResponse
                    else (case Option.bind (Option.bind (get_prop content ''parts'')
                                 (\<lambda>parts. get_index parts 0))
                                 (\<lambda>p0. get_prop p0 ''text'') of
                       Some (JStr generatedText) \<Rightarrow> Inr generatedText
                     | _ \<Rightarrow> Inl RuntimeException))))"

text \<open>Line 157: \<open>generatedText.replace(/```json\n?/g, '').replace(/```\n?/g, '').trim()\<close>.\<close>

definition clean_generated_text :: "string \<Rightarrow> string" where
  "clean_generated_text generatedText =
     trim (remove_all ''```'' (remove_all ''```json'' generatedText))"

text \<open>Lines 173 to 187, one element.\<close>

definition validate_question :: "nat \<Rightarrow> jsval \<Rightarrow> failure + jsval" where
  "validate_question index q =
     (case (get_prop q ''text'', get_prop q ''options'', get_prop q ''correctOption'') of
        (Some t, Some opts, Some co) \<Rightarrow>
          if \<not> truthy t \<or> \<not> is_array opts \<or> array_length opts \<noteq> 4 \<or> \<not> is_number co
          then Inl (InvalidQuestionStructure index)
          else if number_value co < 0 \<or> number_value co > 3
          then Inl (InvalidCorrectOption (index + 1))
          else Inr (JObj [(''text'', t), (''options'', opts), (''correctOption'', co)])
      | _ \<Rightarrow> Inl RuntimeException)"

text \<open>\<open>questions.map\<close> with the callback above, from position \<open>index\<close> on: the first throw
  ends it.\<close>

fun validate_questions :: "nat \<Rightarrow> jsval list \<Rightarrow> failure + jsval list" where
  "validate_questions index [] = Inr []"
| "validate_questions index (q # qs) =
     (case validate_question index q of
        Inl f \<Rightarrow> Inl f
      | Inr q' \<Rightarrow>
          (case validate_questions (Suc index) qs of
             Inl f \<Rightarrow> Inl f
           | Inr qs' \<Rightarrow> Inr (q' # qs')))"

text \<open>Lines 189 to 250: room code, the two inserts, the clean-up, the success response.\<close>

definition gemini_persist ::
  "env \<Rightarrow> user \<Rightarrow> QuizParams \<Rightarrow> jsval list \<Rightarrow> store \<Rightarrow> call list \<Rightarrow> outcome" where
  "gemini_persist ev u params questions st cs =
     (let roomCode = generate_room_code (Math_random ev);
          quizTitle = or_else (title params) (default_title params);
          quizDescription = or_else (description params) (default_description params);
          row = \<lparr>ins_title = quizTitle, ins_description = quizDescription,
                 ins_time_per_question = timePerQuestion params, ins_room_code = roomCode,
                 ins_created_by = user_id u, ins_quiz_type = ''classnode''\<rparr>
      in case insert_quiz ev row st of
           (None, st1) \<Rightarrow> failed 500 FailedToCreateQuiz st1 (cs @ [InsertQuiz row])
         | (Some quizData, st1) \<Rightarrow>
             (case question_rows (row_id quizData) 0 questions of
                None \<Rightarrow> failed 500 RuntimeException st1 (cs @ [InsertQuiz row])
              | Some questionsToInsert \<Rightarrow>
                  (case insert_questions ev questionsToInsert st1 of
                     (False, st2) \<Rightarrow>
                       failed 500 FailedToCreateQuestions
                         (delete_quiz ev (row_id quizData) st2)
                         (cs @ [InsertQuiz row, InsertQuestions questionsToInsert,
                                DeleteQuiz (row_id quizData)])
                   | (True, st2) \<Rightarrow>
                       \<lparr>response =
                          \<lparr>status = 200,
                           body = Success
                             \<lparr>quiz_id = row_id quizData, quiz_title = row_title quizData,
                              quiz_description = row_description quizData,
                              roomCode = room_code quizData,
                              questionsCount = length questions\<rparr>
                             questions\<rparr>,
                        final_store = st2,
                        calls = cs @ [InsertQuiz row, InsertQuestions questionsToInsert]\<rparr>)))"

text \<open>Lines 156 to 187: clean-up, parse, the array check, validation.\<close>

definition gemini_parse ::
  "env \<Rightarrow> user \<Rightarrow> QuizParams \<Rightarrow> string \<Rightarrow> store \<Rightarrow> call list \<Rightarrow> outcome" where
  "gemini_parse ev u params generatedText st cs =
     (case JSON_parse ev (clean_generated_text generatedText) of
        None \<Rightarrow> failed 500 FailedToParse st cs
      | Some (JArr questions) \<Rightarrow>
          if questions = [] then failed 500 NoValidQuestions st cs
          else (case validate_questions 0 questions of
             Inl f \<Rightarrow> failed 500 f st cs
           | Inr validated \<Rightarrow> gemini_persist ev u params validated st cs)
      | Some other \<Rightarrow> failed 500 NoValidQuestions st cs)"

text \<open>Lines 90 to 111: the prompt, a template literal over the parameters.\<close>

definition gemini_prompt :: "QuizParams \<Rightarrow> string" where
  \<open>gemini_prompt params = join_lines
     [''Create '' @ show_int (numQuestions params) @ '' multiple choice questions about '' @
        topic params @ '' in '' @ subject params @ ''. '',
      ''    Difficulty level: '' @ complexity_name (complexity params),
      ''    '',
      ''    Requirements:'',
      ''    - Each question should have exactly 4 options (A, B, C, D)'',
      ''    - Questions should be clear and educational'',
      ''    - Options should be plausible but only one correct'',
      ''    - Cover different aspects of the topic'',
      ''    - Appropriate for '' @ complexity_lower (complexity params) @ '' level students'',
      ''    '',
      ''    Format your response as a JSON array with this exact structure:'',
      ''    ['',
      ''      {'',
      ''        "text": "Question text here?",'',
      ''        "options": ["Option A", "Option B", "Option C", "Option D"],'',
      ''        "correctOption": 0'',
      ''      }'',
      ''    ]'',
      ''    '',
      ''    Where correctOption is the index (0-3) of the correct answer.'',
      ''    '',
      ''    Return only the JSON array, no additional text or formatting.'']\<close>

text \<open>Lines 86 to 154: the body, the key, the call of the backend.\<close>

definition gemini_generate ::
  "env \<Rightarrow> user \<Rightarrow> QuizParams \<Rightarrow> store \<Rightarrow> call list \<Rightarrow> outcome" where
  "gemini_generate ev u params st cs =
     (let prompt = gemini_prompt params
      in if falsy_string (GEMINI_API_KEY ev) then failed 500 GeminiKeyNotConfigured st cs
         else (case gemini_fetch ev prompt of
            FetchRejected \<Rightarrow> failed 500 RuntimeException st (cs @ [GeminiFetch prompt])
          | HttpStatus code \<Rightarrow> failed 500 (GeminiApiError code) st (cs @ [GeminiFetch prompt])
          | HttpUnreadable \<Rightarrow> failed 500 RuntimeException st (cs @ [GeminiFetch prompt])
          | HttpJson geminiData \<Rightarrow>
              (case gemini_text geminiData of
                 Inl f \<Rightarrow> failed 500 f st (cs @ [GeminiFetch prompt])
               | Inr generatedText \<Rightarrow>
                   gemini_parse ev u params generatedText st (cs @ [GeminiFetch prompt]))))"

text \<open>Lines 27 to 84, and the \<open>catch\<close> of lines 252 to 261, which is where the status 500 of
  the stages above comes from.\<close>

definition serve_gemini :: "env \<Rightarrow> request \<Rightarrow> store \<Rightarrow> outcome" where
  "serve_gemini ev req st =
     (if req_method req = ''OPTIONS''
      then \<lparr>response = \<lparr>status = 200, body = Preflight\<rparr>, final_store = st, calls = []\<rparr>
      else (case authorization req of
         None \<Rightarrow> failed 401 NoAuthorizationHeader st []
       | Some authHeader \<Rightarrow>
           if authHeader = [] then failed 401 NoAuthorizationHeader st []
           else
             (let token = remove_first ''Bearer '' authHeader
              in case auth_getUser ev token of
                   None \<Rightarrow> failed 401 AuthenticationFailed st [AuthGetUser token]
                 | Some u \<Rightarrow>
                     if \<not> teacher_found ev (user_id u)
                     then failed 403 TeachersOnly st
                            [AuthGetUser token, TeacherLookup (user_id u)]
                     else gemini_generate ev u (json req) st
                            [AuthGetUser token, TeacherLookup (user_id u)])))"

section \<open>The OpenAI-backed handler\<close>

text \<open>Lines 175 and 176: \<open>aiData.choices[0].message.content.trim()\<close>.\<close>

definition openai_text :: "jsval \<Rightarrow> failure + string" where
  "openai_text aiData =
     (case Option.bind (Option.bind (Option.bind (get_prop aiData ''choices'')
                 (\<lambda>choices. get_index choices 0))
                 (\<lambda>c0. get_prop c0 ''message''))
                 (\<lambda>message. get_prop message ''content'') of
        Some (JStr content) \<Rightarrow> Inr (trim content)
      | _ \<Rightarrow> Inl RuntimeException)"

text \<open>Lines 194 to 264.\<close>

definition openai_persist ::
  "env \<Rightarrow> user \<Rightarrow> QuizParams \<Rightarrow> jsval list \<Rightarrow> store \<Rightarrow> call list \<Rightarrow> outcome" where
  "openai_persist ev u params questions st cs =
     (let roomCode = generate_room_code (Math_random ev);
          quizTitle = or_else (title params) (default_title params);
          quizDescription = or_else (description params) (default_description params);
          row = \<lparr>ins_title = quizTitle, ins_description = quizDescription,
                 ins_time_per_question = timePerQuestion params, ins_room_code = roomCode,
                 ins_created_by = user_id u, ins_quiz_type = ''classnode''\<rparr>
      in case insert_quiz ev row st of
           (None, st1) \<Rightarrow> failed 500 FailedToCreateQuiz st1 (cs @ [InsertQuiz row])
         | (Some quizData, st1) \<Rightarrow>
             (case question_rows (row_id quizData) 0 questions of
                None \<Rightarrow> failed 500 RuntimeException st1 (cs @ [InsertQuiz row])
              | Some questionsToInsert \<Rightarrow>
                  (case insert_questions ev questionsToInsert st1 of
                     (False, st2) \<Rightarrow>
                       failed 500 FailedToSaveQuestions
                         (delete_quiz ev (row_id quizData) st2)
                         (cs @ [InsertQuiz row, InsertQuestions questionsToInsert,
                                DeleteQuiz (row_id quizData)])
                   | (True, st2) \<Rightarrow>
                       \<lparr>response =
                          \<lparr>status = 200,
                           body = Success
                             \<lparr>quiz_id = row_id quizData, quiz_title = row_title quizData,
                              quiz_description = row_description quizData,
                              roomCode = room_code quizData,
                              questionsCount = length questions\<rparr>
                             questions\<rparr>,
                        final_store = st2,
                        calls = cs @ [InsertQuiz row, InsertQuestions questionsToInsert]\<rparr>)))"

text \<open>Lines 180 to 192: parse and the array check; the batch goes on as parsed.\<close>

definition openai_parse ::
  "env \<Rightarrow> user \<Rightarrow> QuizParams \<Rightarrow> string \<Rightarrow> store \<Rightarrow> call list \<Rightarrow> outcome" where
  "openai_parse ev u params generatedText st cs =
     (case JSON_parse ev generatedText of
        None \<Rightarrow> failed 500 InvalidJSON st cs
      | Some (JArr questions) \<Rightarrow>
          if questions = [] then failed 500 NoValidQuestions st cs
          else openai_persist ev u params questions st cs
      | Some other \<Rightarrow> failed 500 NoValidQuestions st cs)"

text \<open>Lines 130 to 143: the prompt.\<close>

definition openai_prompt :: "QuizParams \<Rightarrow> string" where
  \<open>openai_prompt params = join_lines
     [[],
      ''Create '' @ show_int (numQuestions params) @ '' multiple choice questions about '' @
        topic params @ '' '',
      ''in '' @ subject params @ ''. Difficulty: '' @ complexity_name (complexity params) @ ''.'',
      [],
      ''Return ONLY a JSON array in this exact format (no markdown):'',
      [],
      ''['',
      ''  {'',
      ''    "text": "Question?",'',
      ''    "options": ["A", "B", "C", "D"],'',
      ''    "correctOption": 0'',
      ''  }'',
      '']'',
      []]\<close>

text \<open>Lines 125 to 178.\<close>

definition openai_generate ::
  "env \<Rightarrow> user \<Rightarrow> QuizParams \<Rightarrow> store \<Rightarrow> call list \<Rightarrow> outcome" where
  "openai_generate ev u params st cs =
     (let prompt = openai_prompt params
      in if falsy_string (OPENAI_API_KEY ev) then failed 500 OpenAIKeyNotConfigured st cs
         else (case openai_fetch ev prompt of
            FetchRejected \<Rightarrow> failed 500 RuntimeException st (cs @ [OpenAIFetch prompt])
          | HttpStatus code \<Rightarrow> failed 500 (OpenAIApiError code) st (cs @ [OpenAIFetch prompt])
          | HttpUnreadable \<Rightarrow> failed 500 RuntimeException st (cs @ [OpenAIFetch prompt])
          | HttpJson aiData \<Rightarrow>
              (case openai_text aiData of
                 Inl f \<Rightarrow> failed 500 f st (cs @ [OpenAIFetch prompt])
               | Inr generatedText \<Rightarrow>
                   openai_parse ev u params generatedText st (cs @ [OpenAIFetch prompt]))))"

text \<open>Lines 86 to 123 and the \<open>catch\<close> of lines 266 to 279: every failure is thrown, and
  the \<open>catch\<close> answers each with status 500.\<close>

definition serve_openai :: "env \<Rightarrow> request \<Rightarrow> store \<Rightarrow> outcome" where
  "serve_openai ev req st =
     (if req_method req = ''OPTIONS''
      then \<lparr>response = \<lparr>status = 200, body = Preflight\<rparr>, final_store = st, calls = []\<rparr>
      else (case authorization req of
         None \<Rightarrow> failed 500 NoAuthorizationHeader st []
       | Some authHeader \<Rightarrow>
           if authHeader = [] then failed 500 NoAuthorizationHeader st []
           else
             (let token = remove_first ''Bearer '' authHeader
              in case auth_getUser ev token of
                   None \<Rightarrow> failed 500 AuthenticationFailed st [AuthGetUser token]
                 | Some u \<Rightarrow>
                     if \<not> teacher_found ev (user_id u)
                     then failed 500 TeachersOnly st
                            [AuthGetUser token, TeacherLookup (user_id u)]
                     else openai_generate ev u (json req) st
                            [AuthGetUser token, TeacherLookup (user_id u)])))"

section \<open>The form of the quiz-creation page (\<open>handleSubmit\<close> of \<open>CreateQuizAI\<close>)\<close>

text \<open>\<open>s.includes(pat)\<close>.\<close>

fun includes_str :: "string \<Rightarrow> string \<Rightarrow> bool" where
  "includes_str pat [] = (pat = [])"
| "includes_str pat (c # cs) = (starts_with pat (c # cs) \<or> includes_str pat cs)"

text \<open>
  What the page's collaborators do during one submission: whether \<open>refreshSession\<close> gives a
  session with an access token and no error, whether \<open>getSession\<close> gives one, and the result
  of invoking the edge function (an error with its message; data without \<open>success\<close>, with its
  \<open>error\<close>; or data with \<open>success\<close> and the quiz's title and question count).
\<close>

datatype invoke_result =
    InvokeError string
  | InvokeFailure "string option"
  | InvokeSuccess string nat

record client_env =
  refresh_session_ok :: bool
  current_session_ok :: bool
  functions_invoke :: "QuizParams \<Rightarrow> invoke_result"

datatype toast = ToastError string | ToastSuccess string

datatype client_call = RefreshSession | GetSession | FunctionsInvoke QuizParams

record submit_outcome =
  toast :: toast
  navigated :: "string option"
  client_calls :: "client_call list"

text \<open>The \<open>catch\<close> of lines 93 to 103, on an \<open>Error\<close> with the given message.\<close>

definition submit_caught :: "string \<Rightarrow> client_call list \<Rightarrow> submit_outcome" where
  "submit_caught message cs =
     \<lparr>toast = ToastError (if includes_str ''401'' message
                           then ''Session expired. Please log in again.'' else message),
      navigated = None, client_calls = cs\<rparr>"

definition handleSubmit :: "client_env \<Rightarrow> QuizParams \<Rightarrow> submit_outcome" where
  "handleSubmit cev formData =
     (if trim (subject formData) = [] \<or> trim (topic formData) = []
      then \<lparr>toast = ToastError ''Please fill in all required fields'',
            navigated = None, client_calls = []\<rparr>
      else if numQuestions formData < 1 \<or> numQuestions formData > 20
      then \<lparr>toast = ToastError ''Number of questions must be between 1 and 20'',
            navigated = None, client_calls = []\<rparr>
      else if \<not> refresh_session_ok cev \<and> \<not> current_session_ok cev
      then submit_caught ''Please log in again to continue'' [RefreshSession, GetSession]
      else
        (let cs = (if refresh_session_ok cev then [RefreshSession]
                   else [RefreshSession, GetSession]) @ [FunctionsInvoke formData]
         in case functions_invoke cev formData of
              InvokeError m \<Rightarrow>
                submit_caught (if m = [] then ''Failed to generate quiz'' else m) cs
            | InvokeFailure e \<Rightarrow> submit_caught (or_else e ''Quiz generation failed'') cs
            | InvokeSuccess quiz_title_text n \<Rightarrow>
                \<lparr>toast = ToastSuccess (''Quiz '' @ [CHR 0x22] @ quiz_title_text @ [CHR 0x22] @
                           '' created successfully with '' @ show_nat n @ '' questions!''),
                 navigated = Some ''/teacher'', client_calls = cs\<rparr>))"

section \<open>Both handlers under one name, and words for the statements\<close>

datatype variant = Gemini | OpenAI

fun serve :: "variant \<Rightarrow> env \<Rightarrow> request \<Rightarrow> store \<Rightarrow> outcome" where
  "serve Gemini = serve_gemini"
| "serve OpenAI = serve_openai"

fun is_store_call :: "call \<Rightarrow> bool" where
  "is_store_call (InsertQuiz row) = True"
| "is_store_call (InsertQuestions rows) = True"
| "is_store_call (DeleteQuiz qid) = True"
| "is_store_call c = False"

text \<open>
  The status the interface gives a failure: 401 for the two failures of authentication,
  403 for a principal who is no teacher, 500 for every other one.
\<close>

fun interface_status :: "failure \<Rightarrow> nat" where
  "interface_status NoAuthorizationHeader = 401"
| "interface_status AuthenticationFailed = 401"
| "interface_status TeachersOnly = 403"
| "interface_status f = 500"

text \<open>The object both handlers pass to the insert into \<open>quizzes\<close>.\<close>

definition quiz_to_insert :: "env \<Rightarrow> user \<Rightarrow> QuizParams \<Rightarrow> quiz_insert" where
  "quiz_to_insert ev u params =
     \<lparr>ins_title = or_else (title params) (default_title params),
      ins_description = or_else (description params) (default_description params),
      ins_time_per_question = timePerQuestion params,
      ins_room_code = generate_room_code (Math_random ev),
      ins_created_by = user_id u, ins_quiz_type = ''classnode''\<rparr>"

text \<open>
  The array a handler gets from \<open>JSON.parse\<close> on the backend's completion: after the clean-up
  of line 157 in the Gemini-backed handler, after \<open>trim\<close> in the OpenAI-backed one.
\<close>

definition array_of :: "jsval option \<Rightarrow> jsval list option" where
  "array_of v = (case v of Some (JArr batch) \<Rightarrow> Some batch | _ \<Rightarrow> None)"

fun parsed_batch :: "variant \<Rightarrow> env \<Rightarrow> request \<Rightarrow> jsval list option" where
  "parsed_batch Gemini ev req =
     (case gemini_fetch ev (gemini_prompt (json req)) of
        HttpJson data \<Rightarrow>
          (case gemini_text data of
             Inr raw \<Rightarrow> array_of (JSON_parse ev (clean_generated_text raw))
           | Inl f \<Rightarrow> None)
      | _ \<Rightarrow> None)"
| "parsed_batch OpenAI ev req =
     (case openai_fetch ev (openai_prompt (json req)) of
        HttpJson data \<Rightarrow>
          (case openai_text data of
             Inr raw \<Rightarrow> array_of (JSON_parse ev raw)
           | Inl f \<Rightarrow> None)
      | _ \<Rightarrow> None)"

text \<open>
  What the callback of lines 173 to 187 lets through: an element that is neither \<open>null\<close> nor
  \<open>undefined\<close>, whose \<open>text\<close> is truthy, whose \<open>options\<close> is an array of length 4 and whose
  \<open>correctOption\<close> is a number from 0 to 3; and the object it returns for such an element.
\<close>

definition acceptable :: "jsval \<Rightarrow> bool" where
  "acceptable q =
     (case (get_prop q ''text'', get_prop q ''options'', get_prop q ''correctOption'') of
        (Some t, Some opts, Some co) \<Rightarrow>
          truthy t \<and> is_array opts \<and> array_length opts = 4 \<and>
          is_number co \<and> 0 \<le> number_value co \<and> number_value co \<le> 3
      | _ \<Rightarrow> False)"

definition prop_value :: "jsval \<Rightarrow> string \<Rightarrow> jsval" where
  "prop_value q k = (case get_prop q k of None \<Rightarrow> JUndefined | Some v \<Rightarrow> v)"

text \<open>
  The same in three parts, in the order in which the callback meets them: the element is
  \<open>null\<close> or \<open>undefined\<close> (the read of \<open>q.text\<close> throws); it passes the test of line 174;
  it passes the test of line 178.
\<close>

fun nullish :: "jsval \<Rightarrow> bool" where
  "nullish JUndefined = True"
| "nullish JNull = True"
| "nullish v = False"

definition well_structured :: "jsval \<Rightarrow> bool" where
  "well_structured q =
     (truthy (prop_value q ''text'') \<and> is_array (prop_value q ''options'') \<and>
      array_length (prop_value q ''options'') = 4 \<and>
      is_number (prop_value q ''correctOption''))"

definition in_range :: "jsval \<Rightarrow> bool" where
  "in_range q =
     (0 \<le> number_value (prop_value q ''correctOption'') \<and>
      number_value (prop_value q ''correctOption'') \<le> 3)"

definition projection :: "jsval \<Rightarrow> jsval" where
  "projection q =
     JObj [(''text'', prop_value q ''text''), (''options'', prop_value q ''options''),
           (''correctOption'', prop_value q ''correctOption'')]"



section \<open>A concrete request and collaborators, for the evaluations below\<close>

definition teacher :: user where
  "teacher = \<lparr>user_id = ''teacher-1'', email = ''teacher@example.com''\<rparr>"

definition student :: user where
  "student = \<lparr>user_id = ''student-1'', email = ''student@example.com''\<rparr>"

definition algebra_params :: QuizParams where
  "algebra_params =
     \<lparr>subject = ''Mathematics'', topic = ''Algebra'', numQuestions = 3, complexity = Easy,
      timePerQuestion = 30, title = None, description = None\<rparr>"

definition post_request :: "string option \<Rightarrow> QuizParams \<Rightarrow> request" where
  "post_request header params = \<lparr>req_method = ''POST'', authorization = header, json = params\<rparr>"

definition empty_store :: store where
  "empty_store = \<lparr>quizzes = [], quiz_questions = [], next_id = 1\<rparr>"

text \<open>The two envelopes the handlers read the completion from.\<close>

definition gemini_envelope :: "string \<Rightarrow> jsval" where
  "gemini_envelope completion =
     JObj [(''candidates'',
       JArr [JObj [(''content'',
         JObj [(''parts'', JArr [JObj [(''text'', JStr completion)]])])]])]"

definition openai_envelope :: "string \<Rightarrow> jsval" where
  "openai_envelope completion =
     JObj [(''choices'',
       JArr [JObj [(''message'', JObj [(''content'', JStr completion)])]])]"

text \<open>
  Collaborators that accept the token \<open>token-1\<close> of the teacher and the token \<open>token-2\<close> of a
  student, who is in no row of \<open>teachers\<close>, whose backends both answer
  with \<open>completion\<close>, whose \<open>JSON.parse\<close> knows the one text \<open>source\<close> (the JSON text of
  \<open>parsed\<close>), whose random source returns \<open>1/2\<close>, and whose store accepts a quiz, accepts
  a batch of questions when \<open>batch_ok\<close>, and applies a delete.
\<close>

definition collaborators :: "string \<Rightarrow> string \<Rightarrow> jsval \<Rightarrow> bool \<Rightarrow> env" where
  "collaborators completion source parsed batch_ok =
     \<lparr>auth_getUser = (\<lambda>token. if token = ''token-1'' then Some teacher
                              else if token = ''token-2'' then Some student else None),
      teacher_found = (\<lambda>uid. uid = ''teacher-1''),
      GEMINI_API_KEY = Some ''key-g'',
      OPENAI_API_KEY = Some ''key-o'',
      gemini_fetch = (\<lambda>prompt. HttpJson (gemini_envelope completion)),
      openai_fetch = (\<lambda>prompt. HttpJson (openai_envelope completion)),
      JSON_parse = (\<lambda>s. if s = source then Some parsed else None),
      Math_random = (1, 1),
      quiz_insert_ok = (\<lambda>row. True),
      questions_insert_ok = (\<lambda>rows. batch_ok),
      quiz_delete_ok = (\<lambda>qid. True)\<rparr>"

definition one_question_text :: string where
  \<open>one_question_text = ''[{"text":"Q","options":["a","b","c","d"],"correctOption":0}]''\<close>

definition one_question :: jsval where
  "one_question =
     JArr [JObj [(''text'', JStr ''Q''),
                 (''options'', JArr [JStr ''a'', JStr ''b'', JStr ''c'', JStr ''d'']),
                 (''correctOption'', JNum 0)]]"

definition three_options_text :: string where
  \<open>three_options_text = ''[{"text":"Q","options":["a","b","c"],"correctOption":7}]''\<close>

definition three_options :: jsval where
  "three_options =
     JArr [JObj [(''text'', JStr ''Q''),
                 (''options'', JArr [JStr ''a'', JStr ''b'', JStr ''c'']),
                 (''correctOption'', JNum 7)]]"



definition fenced_text :: string where
  \<open>fenced_text = ''```json'' @ [CHR 0x0A] @ one_question_text @ [CHR 0x0A] @ ''```''\<close>

definition null_element_text :: string where
  "null_element_text = ''[null]''"

definition null_element :: jsval where
  "null_element = JArr [JNull]"

definition one_question_element :: jsval where
  "one_question_element =
     JObj [(''text'', JStr ''Q''),
           (''options'', JArr [JStr ''a'', JStr ''b'', JStr ''c'', JStr ''d'']),
           (''correctOption'', JNum 0)]"

text \<open>A request of the teacher with an empty title and an empty description, and the row
  both handlers insert for it.\<close>

definition empty_title_request :: request where
  "empty_title_request =
     post_request (Some ''Bearer token-1'')
       (algebra_params\<lparr>title := Some [], description := Some []\<rparr>)"

definition empty_title_row :: quiz_insert where
  "empty_title_row =
     \<lparr>ins_title = ''AI Generated: Mathematics - Algebra'',
      ins_description = ''AI-generated quiz on Algebra (Easy level)'',
      ins_time_per_question = 30, ins_room_code = ''I'',
      ins_created_by = ''teacher-1'', ins_quiz_type = ''classnode''\<rparr>"

text \<open>A request of the teacher with both numbers out of range, and the row the handlers
  insert for it.\<close>

definition out_of_range_request :: request where
  "out_of_range_request =
     post_request (Some ''Bearer token-1'')
       (algebra_params\<lparr>numQuestions := 0, timePerQuestion := 0\<rparr>)"

definition out_of_range_row :: quiz_insert where
  "out_of_range_row =
     \<lparr>ins_title = ''AI Generated: Mathematics - Algebra'',
      ins_description = ''AI-generated quiz on Algebra (Easy level)'',
      ins_time_per_question = 0, ins_room_code = ''I'',
      ins_created_by = ''teacher-1'', ins_quiz_type = ''classnode''\<rparr>"

definition teacher_request :: request where
  "teacher_request = post_request (Some ''Bearer token-1'') algebra_params"

text \<open>The rows both handlers build from \<open>one_question\<close> for the quiz with identifier 1.\<close>

definition one_question_rows :: "question_row list" where
  "one_question_rows =
     [\<lparr>q_quiz_id = 1, q_text = JStr ''Q'',
       q_options = JArr [JStr ''a'', JStr ''b'', JStr ''c'', JStr ''d''],
       correct_option = JNum 0, order_num = 1\<rparr>]"

text \<open>Collaborators of the page: the session refreshes, and the edge function succeeds.\<close>

definition page_collaborators :: client_env where
  "page_collaborators =
     \<lparr>refresh_session_ok = True, current_session_ok = True,
      functions_invoke = (\<lambda>formData. InvokeSuccess ''Algebra quiz'' 3)\<rparr>"

section \<open>The stages of the Gemini-backed handler, case by case\<close>

lemma failed_sel [simp]:
  "response (failed c f st cs) = \<lparr>status = c, body = Failure f\<rparr>"
  "final_store (failed c f st cs) = st"
  "calls (failed c f st cs) = cs"
  by (simp_all add: failed_def)

lemma validate_question_Inl:
  assumes "validate_question i q = Inl f"
  shows "f = InvalidQuestionStructure i \<or> f = InvalidCorrectOption (i + 1) \<or> f = RuntimeException"
  using assms by (auto simp: validate_question_def split: option.splits if_splits)

lemma validate_questions_Inl:
  assumes "validate_questions i qs = Inl f"
  shows "interface_status f = 500"
  using assms
proof (induction qs arbitrary: i)
  case Nil
  then show ?case by simp
next
  case (Cons q qs)
  show ?case
  proof (cases "validate_question i q")
    case (Inl g)
    with Cons.prems have "f = g" by simp
    with validate_question_Inl[OF Inl] show ?thesis by auto
  next
    case (Inr q')
    with Cons.prems have "validate_questions (Suc i) qs = Inl f"
      by (simp split: sum.splits)
    then show ?thesis by (rule Cons.IH)
  qed
qed

lemma gemini_parse_cases:
  obtains (fail) f where "gemini_parse ev u p raw st cs = failed 500 f st cs"
      and "interface_status f = 500"
  | (persist) batch validated where
      "JSON_parse ev (clean_generated_text raw) = Some (JArr batch)"
      "batch \<noteq> []" "validate_questions 0 batch = Inr validated"
      "gemini_parse ev u p raw st cs = gemini_persist ev u p validated st cs"
proof (cases "JSON_parse ev (clean_generated_text raw)")
  case None
  then show ?thesis using fail[of FailedToParse] by (simp add: gemini_parse_def)
next
  case (Some v)
  show ?thesis
  proof (cases "\<exists>batch. v = JArr batch \<and> batch \<noteq> []")
    case False
    then have "gemini_parse ev u p raw st cs = failed 500 NoValidQuestions st cs"
      using Some by (cases v) (auto simp: gemini_parse_def)
    then show ?thesis using fail[of NoValidQuestions] by simp
  next
    case True
    then obtain batch where b: "v = JArr batch" "batch \<noteq> []" by blast
    show ?thesis
    proof (cases "validate_questions 0 batch")
      case (Inl f)
      then have "gemini_parse ev u p raw st cs = failed 500 f st cs"
        using Some b by (simp add: gemini_parse_def)
      moreover have "interface_status f = 500" by (rule validate_questions_Inl[OF Inl])
      ultimately show ?thesis using fail by blast
    next
      case (Inr validated)
      then have "gemini_parse ev u p raw st cs = gemini_persist ev u p validated st cs"
        using Some b by (simp add: gemini_parse_def)
      then show ?thesis using persist Some b Inr by blast
    qed
  qed
qed

lemma gemini_text_Inl:
  assumes "gemini_text data = Inl f"
  shows "interface_status f = 500"
  using assms
  by (auto simp: gemini_text_def split: option.splits if_splits jsval.splits)

lemma gemini_generate_cases:
  obtains (fail) f cs' where "gemini_generate ev u p st cs = failed 500 f st cs'"
      and "interface_status f = 500"
      and "cs' = cs \<or> cs' = cs @ [GeminiFetch (gemini_prompt p)]"
  | (persist) data raw batch validated where
      "\<not> falsy_string (GEMINI_API_KEY ev)"
      "gemini_fetch ev (gemini_prompt p) = HttpJson data"
      "gemini_text data = Inr raw"
      "JSON_parse ev (clean_generated_text raw) = Some (JArr batch)"
      "batch \<noteq> []" "validate_questions 0 batch = Inr validated"
      "gemini_generate ev u p st cs =
         gemini_persist ev u p validated st (cs @ [GeminiFetch (gemini_prompt p)])"
proof (cases "falsy_string (GEMINI_API_KEY ev)")
  case True
  then show ?thesis using fail[of GeminiKeyNotConfigured cs]
    by (simp add: gemini_generate_def)
next
  case nokey: False
  show ?thesis
  proof (cases "gemini_fetch ev (gemini_prompt p)")
    case FetchRejected
    then show ?thesis using nokey fail[of RuntimeException]
      by (simp add: gemini_generate_def)
  next
    case (HttpStatus code)
    then show ?thesis using nokey fail[of "GeminiApiError code"]
      by (simp add: gemini_generate_def)
  next
    case HttpUnreadable
    then show ?thesis using nokey fail[of RuntimeException]
      by (simp add: gemini_generate_def)
  next
    case (HttpJson data)
    show ?thesis
    proof (cases "gemini_text data")
      case (Inl f)
      then show ?thesis using nokey HttpJson fail[of f] gemini_text_Inl[OF Inl]
        by (simp add: gemini_generate_def)
    next
      case (Inr raw)
      have g: "gemini_generate ev u p st cs =
          gemini_parse ev u p raw st (cs @ [GeminiFetch (gemini_prompt p)])"
        using nokey HttpJson Inr by (simp add: gemini_generate_def)
      show ?thesis
      proof (cases rule: gemini_parse_cases[of ev u p raw st "cs @ [GeminiFetch (gemini_prompt p)]"])
        case (fail f)
        then show ?thesis using g that(1) by simp
      next
        case (persist batch validated)
        then show ?thesis using g nokey HttpJson Inr that(2) by simp
      qed
    qed
  qed
qed

lemma serve_gemini_cases:
  obtains (preflight) "req_method req = ''OPTIONS''"
      "serve_gemini ev req st =
         \<lparr>response = \<lparr>status = 200, body = Preflight\<rparr>, final_store = st, calls = []\<rparr>"
  | (fail) f cs where "req_method req \<noteq> ''OPTIONS''"
      "serve_gemini ev req st = failed (interface_status f) f st cs"
      "filter is_store_call cs = []"
  | (persist) authHeader u data raw batch validated where
      "req_method req \<noteq> ''OPTIONS''"
      "authorization req = Some authHeader" "authHeader \<noteq> []"
      "auth_getUser ev (remove_first ''Bearer '' authHeader) = Some u"
      "teacher_found ev (user_id u)"
      "\<not> falsy_string (GEMINI_API_KEY ev)"
      "gemini_fetch ev (gemini_prompt (json req)) = HttpJson data"
      "gemini_text data = Inr raw"
      "JSON_parse ev (clean_generated_text raw) = Some (JArr batch)"
      "batch \<noteq> []" "validate_questions 0 batch = Inr validated"
      "serve_gemini ev req st =
         gemini_persist ev u (json req) validated st
           [AuthGetUser (remove_first ''Bearer '' authHeader), TeacherLookup (user_id u),
            GeminiFetch (gemini_prompt (json req))]"
proof (cases "req_method req = ''OPTIONS''")
  case True
  then show ?thesis using preflight by (simp add: serve_gemini_def)
next
  case post: False
  show ?thesis
  proof (cases "\<exists>h. authorization req = Some h \<and> h \<noteq> []")
    case False
    then have "serve_gemini ev req st = failed 401 NoAuthorizationHeader st []"
      using post by (cases "authorization req") (auto simp: serve_gemini_def)
    then show ?thesis using post fail[of NoAuthorizationHeader "[]"] by simp
  next
    case True
    then obtain h where h: "authorization req = Some h" "h \<noteq> []" by blast
    show ?thesis
    proof (cases "auth_getUser ev (remove_first ''Bearer '' h)")
      case None
      then have "serve_gemini ev req st =
          failed 401 AuthenticationFailed st [AuthGetUser (remove_first ''Bearer '' h)]"
        using post h by (simp add: serve_gemini_def)
      then show ?thesis using post fail[of AuthenticationFailed] by simp
    next
      case (Some u)
      show ?thesis
      proof (cases "teacher_found ev (user_id u)")
        case False
        then have "serve_gemini ev req st =
            failed 403 TeachersOnly st
              [AuthGetUser (remove_first ''Bearer '' h), TeacherLookup (user_id u)]"
          using post h Some by (simp add: serve_gemini_def)
        then show ?thesis using post fail[of TeachersOnly] by simp
      next
        case True
        let ?cs = "[AuthGetUser (remove_first ''Bearer '' h), TeacherLookup (user_id u)]"
        have g: "serve_gemini ev req st = gemini_generate ev u (json req) st ?cs"
          using post h Some True by (simp add: serve_gemini_def)
        show ?thesis
        proof (cases rule: gemini_generate_cases[of ev u "json req" st ?cs])
          case (fail f cs')
          then have "serve_gemini ev req st = failed (interface_status f) f st cs'"
            "filter is_store_call cs' = []"
            using g by auto
          then show ?thesis using post that(2) by blast
        next
          case (persist data raw batch validated)
          then show ?thesis using g post h Some True that(3) by simp
        qed
      qed
    qed
  qed
qed

section \<open>The stages of the OpenAI-backed handler, case by case\<close>

lemma openai_parse_cases:
  obtains (fail) f where "openai_parse ev u p raw st cs = failed 500 f st cs"
  | (persist) batch where
      "JSON_parse ev raw = Some (JArr batch)" "batch \<noteq> []"
      "openai_parse ev u p raw st cs = openai_persist ev u p batch st cs"
proof (cases "JSON_parse ev raw")
  case None
  then show ?thesis using fail[of InvalidJSON] by (simp add: openai_parse_def)
next
  case (Some v)
  show ?thesis
  proof (cases "\<exists>batch. v = JArr batch \<and> batch \<noteq> []")
    case False
    then have "openai_parse ev u p raw st cs = failed 500 NoValidQuestions st cs"
      using Some by (cases v) (auto simp: openai_parse_def)
    then show ?thesis using fail[of NoValidQuestions] by simp
  next
    case True
    then obtain batch where b: "v = JArr batch" "batch \<noteq> []" by blast
    then have "openai_parse ev u p raw st cs = openai_persist ev u p batch st cs"
      using Some by (simp add: openai_parse_def)
    then show ?thesis using persist Some b by blast
  qed
qed

lemma openai_generate_cases:
  obtains (fail) f cs' where "openai_generate ev u p st cs = failed 500 f st cs'"
      and "cs' = cs \<or> cs' = cs @ [OpenAIFetch (openai_prompt p)]"
  | (persist) data raw batch where
      "\<not> falsy_string (OPENAI_API_KEY ev)"
      "openai_fetch ev (openai_prompt p) = HttpJson data"
      "openai_text data = Inr raw"
      "JSON_parse ev raw = Some (JArr batch)" "batch \<noteq> []"
      "openai_generate ev u p st cs =
         openai_persist ev u p batch st (cs @ [OpenAIFetch (openai_prompt p)])"
proof (cases "falsy_string (OPENAI_API_KEY ev)")
  case True
  then show ?thesis using fail[of OpenAIKeyNotConfigured cs]
    by (simp add: openai_generate_def)
next
  case nokey: False
  show ?thesis
  proof (cases "openai_fetch ev (openai_prompt p)")
    case FetchRejected
    then show ?thesis using nokey fail[of RuntimeException]
      by (simp add: openai_generate_def)
  next
    case (HttpStatus code)
    then show ?thesis using nokey fail[of "OpenAIApiError code"]
      by (simp add: openai_generate_def)
  next
    case HttpUnreadable
    then show ?thesis using nokey fail[of RuntimeException]
      by (simp add: openai_generate_def)
  next
    case (HttpJson data)
    show ?thesis
    proof (cases "openai_text data")
      case (Inl f)
      then show ?thesis using nokey HttpJson fail[of f]
        by (simp add: openai_generate_def)
    next
      case (Inr raw)
      have g: "openai_generate ev u p st cs =
          openai_parse ev u p raw st (cs @ [OpenAIFetch (openai_prompt p)])"
        using nokey HttpJson Inr by (simp add: openai_generate_def)
      show ?thesis
      proof (cases rule: openai_parse_cases[of ev u p raw st "cs @ [OpenAIFetch (openai_prompt p)]"])
        case (fail f)
        then show ?thesis using g that(1) by simp
      next
        case (persist batch)
        then show ?thesis using g nokey HttpJson Inr that(2) by simp
      qed
    qed
  qed
qed

lemma serve_openai_cases:
  obtains (preflight) "req_method req = ''OPTIONS''"
      "serve_openai ev req st =
         \<lparr>response = \<lparr>status = 200, body = Preflight\<rparr>, final_store = st, calls = []\<rparr>"
  | (fail) f cs where "req_method req \<noteq> ''OPTIONS''"
      "serve_openai ev req st = failed 500 f st cs"
      "filter is_store_call cs = []"
  | (persist) authHeader u data raw batch where
      "req_method req \<noteq> ''OPTIONS''"
      "authorization req = Some authHeader" "authHeader \<noteq> []"
      "auth_getUser ev (remove_first ''Bearer '' authHeader) = Some u"
      "teacher_found ev (user_id u)"
      "\<not> falsy_string (OPENAI_API_KEY ev)"
      "openai_fetch ev (openai_prompt (json req)) = HttpJson data"
      "openai_text data = Inr raw"
      "JSON_parse ev raw = Some (JArr batch)"
      "batch \<noteq> []"
      "serve_openai ev req st =
         openai_persist ev u (json req) batch st
           [AuthGetUser (remove_first ''Bearer '' authHeader), TeacherLookup (user_id u),
            OpenAIFetch (openai_prompt (json req))]"
proof (cases "req_method req = ''OPTIONS''")
  case True
  then show ?thesis using preflight by (simp add: serve_openai_def)
next
  case post: False
  show ?thesis
  proof (cases "\<exists>h. authorization req = Some h \<and> h \<noteq> []")
    case False
    then have "serve_openai ev req st = failed 500 NoAuthorizationHeader st []"
      using post by (cases "authorization req") (auto simp: serve_openai_def)
    then show ?thesis using post fail[of NoAuthorizationHeader "[]"] by simp
  next
    case True
    then obtain h where h: "authorization req = Some h" "h \<noteq> []" by blast
    show ?thesis
    proof (cases "auth_getUser ev (remove_first ''Bearer '' h)")
      case None
      then have "serve_openai ev req st =
          failed 500 AuthenticationFailed st [AuthGetUser (remove_first ''Bearer '' h)]"
        using post h by (simp add: serve_openai_def)
      then show ?thesis using post fail[of AuthenticationFailed] by simp
    next
      case (Some u)
      show ?thesis
      proof (cases "teacher_found ev (user_id u)")
        case False
        then have "serve_openai ev req st =
            failed 500 TeachersOnly st
              [AuthGetUser (remove_first ''Bearer '' h), TeacherLookup (user_id u)]"
          using post h Some by (simp add: serve_openai_def)
        then show ?thesis using post fail[of TeachersOnly] by simp
      next
        case True
        let ?cs = "[AuthGetUser (remove_first ''Bearer '' h), TeacherLookup (user_id u)]"
        have g: "serve_openai ev req st = openai_generate ev u (json req) st ?cs"
          using post h Some True by (simp add: serve_openai_def)
        show ?thesis
        proof (cases rule: openai_generate_cases[of ev u "json req" st ?cs])
          case (fail f cs')
          then have "serve_openai ev req st = failed 500 f st cs'"
            "filter is_store_call cs' = []"
            using g by auto
          then show ?thesis using post that(2) by blast
        next
          case (persist data raw batch)
          then show ?thesis using g post h Some True that(3) by simp
        qed
      qed
    qed
  qed
qed

section \<open>The persistence step, case by case\<close>

lemma insert_quiz_Some:
  assumes "insert_quiz ev row st = (Some quizData, st1)"
  shows "quiz_insert_ok ev row" "row_id quizData = next_id st"
    "row_title quizData = ins_title row" "row_description quizData = ins_description row"
    "room_code quizData = ins_room_code row"
    "quizzes st1 = quizzes st @ [quizData]" "quiz_questions st1 = quiz_questions st"
    "next_id st1 = Suc (next_id st)"
  using assms by (auto simp: insert_quiz_def Let_def split: if_splits)

lemma insert_quiz_None:
  assumes "insert_quiz ev row st = (None, st1)"
  shows "\<not> quiz_insert_ok ev row" "st1 = st"
  using assms by (auto simp: insert_quiz_def Let_def split: if_splits)

lemma insert_questions_False:
  assumes "insert_questions ev rows st1 = (False, st2)"
  shows "\<not> questions_insert_ok ev rows" "st2 = st1"
  using assms by (auto simp: insert_questions_def split: if_splits)

lemma insert_questions_True:
  assumes "insert_questions ev rows st1 = (True, st2)"
  shows "questions_insert_ok ev rows" "quizzes st2 = quizzes st1"
    "quiz_questions st2 = quiz_questions st1 @ rows" "next_id st2 = next_id st1"
  using assms by (auto simp: insert_questions_def split: if_splits)

lemma gemini_persist_cases:
  obtains (quiz_failed) st1 where
      "insert_quiz ev (quiz_to_insert ev u p) st = (None, st1)"
      "gemini_persist ev u p qs st cs =
         failed 500 FailedToCreateQuiz st1 (cs @ [InsertQuiz (quiz_to_insert ev u p)])"
  | (rows_failed) quizData st1 where
      "insert_quiz ev (quiz_to_insert ev u p) st = (Some quizData, st1)"
      "question_rows (row_id quizData) 0 qs = None"
      "gemini_persist ev u p qs st cs =
         failed 500 RuntimeException st1 (cs @ [InsertQuiz (quiz_to_insert ev u p)])"
  | (batch_failed) quizData st1 rows st2 where
      "insert_quiz ev (quiz_to_insert ev u p) st = (Some quizData, st1)"
      "question_rows (row_id quizData) 0 qs = Some rows"
      "insert_questions ev rows st1 = (False, st2)"
      "gemini_persist ev u p qs st cs =
         failed 500 FailedToCreateQuestions (delete_quiz ev (row_id quizData) st2)
           (cs @ [InsertQuiz (quiz_to_insert ev u p), InsertQuestions rows,
                  DeleteQuiz (row_id quizData)])"
  | (committed) quizData st1 rows st2 where
      "insert_quiz ev (quiz_to_insert ev u p) st = (Some quizData, st1)"
      "question_rows (row_id quizData) 0 qs = Some rows"
      "insert_questions ev rows st1 = (True, st2)"
      "gemini_persist ev u p qs st cs =
         \<lparr>response =
            \<lparr>status = 200,
             body = Success
               \<lparr>quiz_id = row_id quizData, quiz_title = row_title quizData,
                quiz_description = row_description quizData,
                roomCode = room_code quizData, questionsCount = length qs\<rparr> qs\<rparr>,
          final_store = st2,
          calls = cs @ [InsertQuiz (quiz_to_insert ev u p), InsertQuestions rows]\<rparr>"
proof (cases "insert_quiz ev (quiz_to_insert ev u p) st")
  case (Pair r st1)
  show ?thesis
  proof (cases r)
    case None
    then show ?thesis using Pair quiz_failed[of st1]
      by (simp add: gemini_persist_def quiz_to_insert_def)
  next
    case (Some quizData)
    show ?thesis
    proof (cases "question_rows (row_id quizData) 0 qs")
      case None
      then show ?thesis using Pair Some rows_failed[of quizData st1]
        by (simp add: gemini_persist_def quiz_to_insert_def)
    next
      case rows: (Some rows)
      show ?thesis
      proof (cases "insert_questions ev rows st1")
        case ins: (Pair ok st2)
        show ?thesis
        proof (cases ok)
          case True
          then show ?thesis using Pair Some rows ins committed[of quizData st1 rows st2]
            by (simp add: gemini_persist_def quiz_to_insert_def)
        next
          case False
          then show ?thesis using Pair Some rows ins batch_failed[of quizData st1 rows st2]
            by (simp add: gemini_persist_def quiz_to_insert_def)
        qed
      qed
    qed
  qed
qed

lemma openai_persist_cases:
  obtains (quiz_failed) st1 where
      "insert_quiz ev (quiz_to_insert ev u p) st = (None, st1)"
      "openai_persist ev u p qs st cs =
         failed 500 FailedToCreateQuiz st1 (cs @ [InsertQuiz (quiz_to_insert ev u p)])"
  | (rows_failed) quizData st1 where
      "insert_quiz ev (quiz_to_insert ev u p) st = (Some quizData, st1)"
      "question_rows (row_id quizData) 0 qs = None"
      "openai_persist ev u p qs st cs =
         failed 500 RuntimeException st1 (cs @ [InsertQuiz (quiz_to_insert ev u p)])"
  | (batch_failed) quizData st1 rows st2 where
      "insert_quiz ev (quiz_to_insert ev u p) st = (Some quizData, st1)"
      "question_rows (row_id quizData) 0 qs = Some rows"
      "insert_questions ev rows st1 = (False, st2)"
      "openai_persist ev u p qs st cs =
         failed 500 FailedToSaveQuestions (delete_quiz ev (row_id quizData) st2)
           (cs @ [InsertQuiz (quiz_to_insert ev u p), InsertQuestions rows,
                  DeleteQuiz (row_id quizData)])"
  | (committed) quizData st1 rows st2 where
      "insert_quiz ev (quiz_to_insert ev u p) st = (Some quizData, st1)"
      "question_rows (row_id quizData) 0 qs = Some rows"
      "insert_questions ev rows st1 = (True, st2)"
      "openai_persist ev u p qs st cs =
         \<lparr>response =
            \<lparr>status = 200,
             body = Success
               \<lparr>quiz_id = row_id quizData, quiz_title = row_title quizData,
                quiz_description = row_description quizData,
                roomCode = room_code quizData, questionsCount = length qs\<rparr> qs\<rparr>,
          final_store = st2,
          calls = cs @ [InsertQuiz (quiz_to_insert ev u p), InsertQuestions rows]\<rparr>"
proof (cases "insert_quiz ev (quiz_to_insert ev u p) st")
  case (Pair r st1)
  show ?thesis
  proof (cases r)
    case None
    then show ?thesis using Pair quiz_failed[of st1]
      by (simp add: openai_persist_def quiz_to_insert_def)
  next
    case (Some quizData)
    show ?thesis
    proof (cases "question_rows (row_id quizData) 0 qs")
      case None
      then show ?thesis using Pair Some rows_failed[of quizData st1]
        by (simp add: openai_persist_def quiz_to_insert_def)
    next
      case rows: (Some rows)
      show ?thesis
      proof (cases "insert_questions ev rows st1")
        case ins: (Pair ok st2)
        show ?thesis
        proof (cases ok)
          case True
          then show ?thesis using Pair Some rows ins committed[of quizData st1 rows st2]
            by (simp add: openai_persist_def quiz_to_insert_def)
        next
          case False
          then show ?thesis using Pair Some rows ins batch_failed[of quizData st1 rows st2]
            by (simp add: openai_persist_def quiz_to_insert_def)
        qed
      qed
    qed
  qed
qed

section \<open>What the validator lets through\<close>

lemma validate_question_acceptable:
  "acceptable q \<Longrightarrow> validate_question i q = Inr (projection q)"
  by (auto simp: acceptable_def validate_question_def projection_def prop_value_def
      split: option.splits)

lemma validate_question_not_acceptable:
  "\<not> acceptable q \<Longrightarrow> \<exists>f. validate_question i q = Inl f"
  by (auto simp: acceptable_def validate_question_def
      split: option.splits)

lemma validate_questions_acceptable:
  "list_all acceptable qs \<Longrightarrow> validate_questions i qs = Inr (map projection qs)"
  by (induction qs arbitrary: i) (simp_all add: validate_question_acceptable)

lemma validate_questions_rejects:
  assumes "\<not> list_all acceptable qs"
  shows "\<exists>f. validate_questions i qs = Inl f \<and>
              validate_question (i + length (takeWhile acceptable qs))
                (qs ! length (takeWhile acceptable qs)) = Inl f"
  using assms
proof (induction qs arbitrary: i)
  case Nil
  then show ?case by simp
next
  case (Cons q qs)
  show ?case
  proof (cases "acceptable q")
    case False
    then obtain f where "validate_question i q = Inl f"
      using validate_question_not_acceptable by blast
    then show ?thesis using False by simp
  next
    case True
    then have "\<not> list_all acceptable qs" using Cons.prems by simp
    from Cons.IH[OF this, of "Suc i"] obtain f where
      "validate_questions (Suc i) qs = Inl f"
      "validate_question (Suc i + length (takeWhile acceptable qs))
         (qs ! length (takeWhile acceptable qs)) = Inl f" by blast
    then show ?thesis using True by (simp add: validate_question_acceptable)
  qed
qed

lemma validate_questions_Inr:
  assumes "validate_questions i qs = Inr out"
  shows "list_all acceptable qs \<and> out = map projection qs"
proof (cases "list_all acceptable qs")
  case True
  then show ?thesis using assms validate_questions_acceptable[of qs i] by simp
next
  case False
  then show ?thesis using assms validate_questions_rejects[of qs i] by auto
qed

lemma acceptable_bounds:
  assumes "acceptable q"
  shows "is_array (prop_value q ''options'')" "array_length (prop_value q ''options'') = 4"
    "is_number (prop_value q ''correctOption'')"
    "0 \<le> number_value (prop_value q ''correctOption'')"
    "number_value (prop_value q ''correctOption'') < 4"
  using assms
  by (auto simp: acceptable_def prop_value_def split: option.splits)

lemma no_store_call_mem:
  assumes "filter is_store_call cs = []" and "is_store_call c"
  shows "c \<notin> set cs"
  using assms by (auto simp: filter_empty_conv)

lemma delete_after_insert:
  assumes "insert_quiz ev row st = (Some quizData, st1)"
  shows "quiz_delete_ok ev (next_id st) \<Longrightarrow>
           quizzes (delete_quiz ev (row_id quizData) st1) =
             filter (\<lambda>q. row_id q \<noteq> next_id st) (quizzes st)"
    and "quiz_delete_ok ev (next_id st) \<Longrightarrow>
           quiz_questions (delete_quiz ev (row_id quizData) st1) =
             filter (\<lambda>q. q_quiz_id q \<noteq> next_id st) (quiz_questions st)"
    and "\<not> quiz_delete_ok ev (next_id st) \<Longrightarrow>
           map row_id (quizzes (delete_quiz ev (row_id quizData) st1)) =
             map row_id (quizzes st) @ [next_id st]"
    and "\<not> quiz_delete_ok ev (next_id st) \<Longrightarrow>
           quiz_questions (delete_quiz ev (row_id quizData) st1) = quiz_questions st"
  using insert_quiz_Some[OF assms] by (simp_all add: delete_quiz_def)

lemma gemini_persist_rollback:
  assumes "InsertQuestions rows \<in> set (calls (gemini_persist ev u p qs st cs))"
    and "filter is_store_call cs = []"
    and "\<not> questions_insert_ok ev rows"
  shows "\<exists>quizData st1.
           insert_quiz ev (quiz_to_insert ev u p) st = (Some quizData, st1) \<and>
           calls (gemini_persist ev u p qs st cs) =
             cs @ [InsertQuiz (quiz_to_insert ev u p), InsertQuestions rows,
                   DeleteQuiz (next_id st)] \<and>
           response (gemini_persist ev u p qs st cs) =
             \<lparr>status = 500, body = Failure FailedToCreateQuestions\<rparr> \<and>
           final_store (gemini_persist ev u p qs st cs) =
             delete_quiz ev (row_id quizData) st1"
proof -
  have notin: "InsertQuestions rows \<notin> set cs"
    using no_store_call_mem[OF assms(2)] by simp
  show ?thesis
  proof (cases rule: gemini_persist_cases[of ev u p st qs cs])
    case (quiz_failed st1)
    then show ?thesis using assms(1) notin by simp
  next
    case (rows_failed quizData st1)
    then show ?thesis using assms(1) notin by simp
  next
    case (batch_failed quizData st1 rows' st2)
    then have "rows' = rows" using assms(1) notin by simp
    then show ?thesis
      using batch_failed insert_quiz_Some(2)[OF batch_failed(1)]
        insert_questions_False[OF batch_failed(3)]
      by simp
  next
    case (committed quizData st1 rows' st2)
    then have "rows' = rows" using assms(1) notin by simp
    then show ?thesis
      using committed insert_questions_True[OF committed(3)] assms(3) by simp
  qed
qed

lemma openai_persist_rollback:
  assumes "InsertQuestions rows \<in> set (calls (openai_persist ev u p qs st cs))"
    and "filter is_store_call cs = []"
    and "\<not> questions_insert_ok ev rows"
  shows "\<exists>quizData st1.
           insert_quiz ev (quiz_to_insert ev u p) st = (Some quizData, st1) \<and>
           calls (openai_persist ev u p qs st cs) =
             cs @ [InsertQuiz (quiz_to_insert ev u p), InsertQuestions rows,
                   DeleteQuiz (next_id st)] \<and>
           response (openai_persist ev u p qs st cs) =
             \<lparr>status = 500, body = Failure FailedToSaveQuestions\<rparr> \<and>
           final_store (openai_persist ev u p qs st cs) =
             delete_quiz ev (row_id quizData) st1"
proof -
  have notin: "InsertQuestions rows \<notin> set cs"
    using no_store_call_mem[OF assms(2)] by simp
  show ?thesis
  proof (cases rule: openai_persist_cases[of ev u p st qs cs])
    case (quiz_failed st1)
    then show ?thesis using assms(1) notin by simp
  next
    case (rows_failed quizData st1)
    then show ?thesis using assms(1) notin by simp
  next
    case (batch_failed quizData st1 rows' st2)
    then have "rows' = rows" using assms(1) notin by simp
    then show ?thesis
      using batch_failed insert_quiz_Some(2)[OF batch_failed(1)]
        insert_questions_False[OF batch_failed(3)]
      by simp
  next
    case (committed quizData st1 rows' st2)
    then have "rows' = rows" using assms(1) notin by simp
    then show ?thesis
      using committed insert_questions_True[OF committed(3)] assms(3) by simp
  qed
qed

lemma rolled_back_store:
  assumes "insert_quiz ev row st = (Some quizData, st1)"
    and "final = delete_quiz ev (row_id quizData) st1"
  shows "quiz_insert_ok ev row \<and>
     (quiz_delete_ok ev (next_id st) \<longrightarrow>
        quizzes final = filter (\<lambda>q. row_id q \<noteq> next_id st) (quizzes st) \<and>
        quiz_questions final = filter (\<lambda>q. q_quiz_id q \<noteq> next_id st) (quiz_questions st) \<and>
        list_all (\<lambda>q. row_id q \<noteq> next_id st) (quizzes final)) \<and>
     (\<not> quiz_delete_ok ev (next_id st) \<longrightarrow>
        map row_id (quizzes final) = map row_id (quizzes st) @ [next_id st] \<and>
        quiz_questions final = quiz_questions st)"
  using delete_after_insert[OF assms(1)] insert_quiz_Some(1)[OF assms(1)] assms(2)
  by (simp add: list_all_iff)

text \<open>
  C3 as stated fails: when the store answers the delete with an error, which neither
  handler looks at, the response is the same failure of status 500 and the quiz row of the
  request stays in the store, without questions.
\<close>

theorem quiz_stays_when_delete_fails_counterexample:
  "InsertQuestions one_question_rows \<in>
     set (calls (serve Gemini
       ((collaborators one_question_text one_question_text one_question False)
          \<lparr>quiz_delete_ok := (\<lambda>qid. False)\<rparr>)
       teacher_request empty_store)) \<and>
   \<not> questions_insert_ok
       ((collaborators one_question_text one_question_text one_question False)
          \<lparr>quiz_delete_ok := (\<lambda>qid. False)\<rparr>) one_question_rows \<and>
   response (serve Gemini
       ((collaborators one_question_text one_question_text one_question False)
          \<lparr>quiz_delete_ok := (\<lambda>qid. False)\<rparr>)
       teacher_request empty_store) =
     \<lparr>status = 500, body = Failure FailedToCreateQuestions\<rparr> \<and>
   map row_id (quizzes (final_store (serve Gemini
       ((collaborators one_question_text one_question_text one_question False)
          \<lparr>quiz_delete_ok := (\<lambda>qid. False)\<rparr>)
       teacher_request empty_store))) = [1] \<and>
   quiz_questions (final_store (serve Gemini
       ((collaborators one_question_text one_question_text one_question False)
          \<lparr>quiz_delete_ok := (\<lambda>qid. False)\<rparr>)
       teacher_request empty_store)) = [] \<and>
   response (serve OpenAI
       ((collaborators one_question_text one_question_text one_question False)
          \<lparr>quiz_delete_ok := (\<lambda>qid. False)\<rparr>)
       teacher_request empty_store) =
     \<lparr>status = 500, body = Failure FailedToSaveQuestions\<rparr> \<and>
   map row_id (quizzes (final_store (serve OpenAI
       ((collaborators one_question_text one_question_text one_question False)
          \<lparr>quiz_delete_ok := (\<lambda>qid. False)\<rparr>)
       teacher_request empty_store))) = [1]"
  by code_simp

text \<open>
  C3, amended. When a handler has inserted the quiz row and the insert of the question
  batch fails, it issues the delete of that quiz row right after the failed insert and
  answers with a failure of status 500, in both handlers. When the store applies that
  delete, the quiz row of this request is not in the store afterwards, and no question row
  of it either; when the store answers the delete with an error, the quiz row stays.
\<close>

theorem compensating_delete_after_failed_batch:
  assumes "InsertQuestions rows \<in> set (calls (serve v ev req st))"
    and "\<not> questions_insert_ok ev rows"
  shows "\<exists>pre row f.
           calls (serve v ev req st) =
             pre @ [InsertQuiz row, InsertQuestions rows, DeleteQuiz (next_id st)] \<and>
           filter is_store_call pre = [] \<and>
           quiz_insert_ok ev row \<and>
           response (serve v ev req st) = \<lparr>status = 500, body = Failure f\<rparr> \<and>
           (quiz_delete_ok ev (next_id st) \<longrightarrow>
              quizzes (final_store (serve v ev req st)) =
                filter (\<lambda>q. row_id q \<noteq> next_id st) (quizzes st) \<and>
              quiz_questions (final_store (serve v ev req st)) =
                filter (\<lambda>q. q_quiz_id q \<noteq> next_id st) (quiz_questions st) \<and>
              list_all (\<lambda>q. row_id q \<noteq> next_id st)
                (quizzes (final_store (serve v ev req st)))) \<and>
           (\<not> quiz_delete_ok ev (next_id st) \<longrightarrow>
              map row_id (quizzes (final_store (serve v ev req st))) =
                map row_id (quizzes st) @ [next_id st] \<and>
              quiz_questions (final_store (serve v ev req st)) = quiz_questions st)"
proof (cases v)
  case Gemini
  show ?thesis
  proof (cases rule: serve_gemini_cases[of req ev st])
    case preflight
    then show ?thesis using assms(1) Gemini by simp
  next
    case (fail f cs)
    then show ?thesis using assms(1) Gemini no_store_call_mem[OF fail(3)] by simp
  next
    case (persist authHeader u data raw batch validated)
    let ?cs = "[AuthGetUser (remove_first ''Bearer '' authHeader), TeacherLookup (user_id u),
            GeminiFetch (gemini_prompt (json req))]"
    have cs: "filter is_store_call ?cs = []" by simp
    have mem: "InsertQuestions rows \<in> set (calls (gemini_persist ev u (json req) validated st ?cs))"
      using assms(1) Gemini persist(12) by simp
    from gemini_persist_rollback[OF mem cs assms(2)] obtain quizData st1 where
      r: "insert_quiz ev (quiz_to_insert ev u (json req)) st = (Some quizData, st1)"
        "calls (gemini_persist ev u (json req) validated st ?cs) =
           ?cs @ [InsertQuiz (quiz_to_insert ev u (json req)), InsertQuestions rows,
                 DeleteQuiz (next_id st)]"
        "response (gemini_persist ev u (json req) validated st ?cs) =
           \<lparr>status = 500, body = Failure FailedToCreateQuestions\<rparr>"
        "final_store (gemini_persist ev u (json req) validated st ?cs) =
           delete_quiz ev (row_id quizData) st1"
      by blast
    have eq: "serve v ev req st = gemini_persist ev u (json req) validated st ?cs"
      using Gemini persist(12) by simp
    note store = rolled_back_store[OF r(1) r(4)]
    show ?thesis unfolding eq
      using store r(2) r(3) cs by blast
  qed
next
  case OpenAI
  show ?thesis
  proof (cases rule: serve_openai_cases[of req ev st])
    case preflight
    then show ?thesis using assms(1) OpenAI by simp
  next
    case (fail f cs)
    then show ?thesis using assms(1) OpenAI no_store_call_mem[OF fail(3)] by simp
  next
    case (persist authHeader u data raw batch)
    let ?cs = "[AuthGetUser (remove_first ''Bearer '' authHeader), TeacherLookup (user_id u),
            OpenAIFetch (openai_prompt (json req))]"
    have cs: "filter is_store_call ?cs = []" by simp
    have mem: "InsertQuestions rows \<in> set (calls (openai_persist ev u (json req) batch st ?cs))"
      using assms(1) OpenAI persist(11) by simp
    from openai_persist_rollback[OF mem cs assms(2)] obtain quizData st1 where
      r: "insert_quiz ev (quiz_to_insert ev u (json req)) st = (Some quizData, st1)"
        "calls (openai_persist ev u (json req) batch st ?cs) =
           ?cs @ [InsertQuiz (quiz_to_insert ev u (json req)), InsertQuestions rows,
                 DeleteQuiz (next_id st)]"
        "response (openai_persist ev u (json req) batch st ?cs) =
           \<lparr>status = 500, body = Failure FailedToSaveQuestions\<rparr>"
        "final_store (openai_persist ev u (json req) batch st ?cs) =
           delete_quiz ev (row_id quizData) st1"
      by blast
    have eq: "serve v ev req st = openai_persist ev u (json req) batch st ?cs"
      using OpenAI persist(11) by simp
    note store = rolled_back_store[OF r(1) r(4)]
    show ?thesis unfolding eq
      using store r(2) r(3) cs by blast
  qed
qed

theorem compensating_delete_after_failed_batch_witness:
  "InsertQuestions one_question_rows \<in>
     set (calls (serve Gemini (collaborators one_question_text one_question_text one_question False)
            teacher_request empty_store)) \<and>
   InsertQuestions one_question_rows \<in>
     set (calls (serve OpenAI (collaborators one_question_text one_question_text one_question False)
            teacher_request empty_store)) \<and>
   \<not> questions_insert_ok (collaborators one_question_text one_question_text one_question False)
        one_question_rows \<and>
   quiz_delete_ok (collaborators one_question_text one_question_text one_question False)
     (next_id empty_store) \<and>
   status (response (serve Gemini
     (collaborators one_question_text one_question_text one_question False)
     teacher_request empty_store)) = 500 \<and>
   quizzes (final_store (serve Gemini
     (collaborators one_question_text one_question_text one_question False)
     teacher_request empty_store)) = [] \<and>
   status (response (serve OpenAI
     (collaborators one_question_text one_question_text one_question False)
     teacher_request empty_store)) = 500 \<and>
   quizzes (final_store (serve OpenAI
     (collaborators one_question_text one_question_text one_question False)
     teacher_request empty_store)) = [] \<and>
   InsertQuestions one_question_rows \<in>
     set (calls (serve Gemini
       ((collaborators one_question_text one_question_text one_question False)
          \<lparr>quiz_delete_ok := (\<lambda>qid. False)\<rparr>)
       teacher_request empty_store)) \<and>
   \<not> quiz_delete_ok
       ((collaborators one_question_text one_question_text one_question False)
          \<lparr>quiz_delete_ok := (\<lambda>qid. False)\<rparr>) (next_id empty_store) \<and>
   map row_id (quizzes (final_store (serve Gemini
       ((collaborators one_question_text one_question_text one_question False)
          \<lparr>quiz_delete_ok := (\<lambda>qid. False)\<rparr>)
       teacher_request empty_store))) = [1]"
proof -
  let ?ev = "collaborators one_question_text one_question_text one_question False"
  let ?ev' = "?ev\<lparr>quiz_delete_ok := (\<lambda>qid. False)\<rparr>"
  have g: "InsertQuestions one_question_rows \<in>
      set (calls (serve Gemini ?ev teacher_request empty_store))"
    by code_simp
  have o: "InsertQuestions one_question_rows \<in>
      set (calls (serve OpenAI ?ev teacher_request empty_store))"
    by code_simp
  have g': "InsertQuestions one_question_rows \<in>
      set (calls (serve Gemini ?ev' teacher_request empty_store))"
    by code_simp
  have n: "\<not> questions_insert_ok ?ev one_question_rows"
    by (simp add: collaborators_def)
  have n': "\<not> questions_insert_ok ?ev' one_question_rows"
    by (simp add: collaborators_def)
  have d: "quiz_delete_ok ?ev (next_id empty_store)"
    by (simp add: collaborators_def)
  have d': "\<not> quiz_delete_ok ?ev' (next_id empty_store)"
    by simp
  have 1: "status (response (serve Gemini ?ev teacher_request empty_store)) = 500 \<and>
      quizzes (final_store (serve Gemini ?ev teacher_request empty_store)) = []"
    using compensating_delete_after_failed_batch[OF g n] d by (auto simp: empty_store_def)
  have 2: "status (response (serve OpenAI ?ev teacher_request empty_store)) = 500 \<and>
      quizzes (final_store (serve OpenAI ?ev teacher_request empty_store)) = []"
    using compensating_delete_after_failed_batch[OF o n] d by (auto simp: empty_store_def)
  have 3: "map row_id (quizzes (final_store (serve Gemini ?ev' teacher_request empty_store)))
      = [1]"
    using compensating_delete_after_failed_batch[OF g' n'] d' by (auto simp: empty_store_def)
  show ?thesis using g o g' n d d' 1 2 3 by simp
qed

text \<open>
  At the edge of C3: in the Gemini-backed handler an accepted insert of the quiz row is
  always followed by the insert of the batch, since every validated element is an object.
  In the OpenAI-backed handler, which does not validate, an element \<open>null\<close> raises the
  TypeError of \<open>q.text\<close> between the two inserts: no batch is inserted, no delete is
  issued, and the quiz row stays.
\<close>

lemma question_row_of_projection_Some:
  "\<exists>row. question_row_of qid i (projection q) = Some row"
  by (simp add: question_row_of_def projection_def)

lemma question_rows_projection_Some:
  "\<exists>rows. question_rows qid i (map projection qs) = Some rows"
proof (induction qs arbitrary: i)
  case Nil
  then show ?case by simp
next
  case (Cons q qs)
  obtain row where "question_row_of qid i (projection q) = Some row"
    using question_row_of_projection_Some by blast
  moreover obtain rows where "question_rows qid (Suc i) (map projection qs) = Some rows"
    using Cons.IH by blast
  ultimately show ?case by simp
qed

lemma gemini_batch_insert_follows_quiz_insert:
  assumes "InsertQuiz row \<in> set (calls (serve_gemini ev req st))"
    and "quiz_insert_ok ev row"
  shows "\<exists>rows. InsertQuestions rows \<in> set (calls (serve_gemini ev req st))"
proof (cases rule: serve_gemini_cases[of req ev st])
  case preflight
  then show ?thesis using assms(1) by simp
next
  case (fail f cs)
  then show ?thesis using assms(1) no_store_call_mem[OF fail(3)] by simp
next
  case (persist authHeader u data raw batch validated)
  let ?cs = "[AuthGetUser (remove_first ''Bearer '' authHeader), TeacherLookup (user_id u),
          GeminiFetch (gemini_prompt (json req))]"
  have cs: "filter is_store_call ?cs = []" by simp
  have notin: "InsertQuiz row \<notin> set ?cs" by simp
  have v: "validated = map projection batch"
    using validate_questions_Inr[OF persist(11)] by simp
  show ?thesis
  proof (cases rule: gemini_persist_cases[of ev u "json req" st validated ?cs])
    case (quiz_failed st1)
    then have "row = quiz_to_insert ev u (json req)"
      using assms(1) persist(12) by auto
    then show ?thesis using insert_quiz_None(1)[OF quiz_failed(1)] assms(2) by simp
  next
    case (rows_failed quizData st1)
    then show ?thesis using question_rows_projection_Some[of "row_id quizData" 0 batch] v
      by simp
  next
    case (batch_failed quizData st1 rows st2)
    then show ?thesis using persist(12) by auto
  next
    case (committed quizData st1 rows st2)
    then show ?thesis using persist(12) by auto
  qed
qed

lemma openai_null_element_leaves_quiz:
  "response (serve OpenAI (collaborators null_element_text null_element_text null_element True)
     teacher_request empty_store) = \<lparr>status = 500, body = Failure RuntimeException\<rparr> \<and>
   map row_id (quizzes (final_store (serve OpenAI
     (collaborators null_element_text null_element_text null_element True)
     teacher_request empty_store))) = [1] \<and>
   quiz_questions (final_store (serve OpenAI
     (collaborators null_element_text null_element_text null_element True)
     teacher_request empty_store)) = [] \<and>
   length (filter is_store_call (calls (serve OpenAI
     (collaborators null_element_text null_element_text null_element True)
     teacher_request empty_store))) = 1 \<and>
   response (serve Gemini (collaborators null_element_text null_element_text null_element True)
     teacher_request empty_store) = \<lparr>status = 500, body = Failure RuntimeException\<rparr> \<and>
   final_store (serve Gemini
     (collaborators null_element_text null_element_text null_element True)
     teacher_request empty_store) = empty_store"
  by code_simp

section \<open>Room codes (C9)\<close>

text \<open>
  C9, at the value \<open>1/2\<close> of the random source: its base-36 numeral is \<open>0.i\<close>, and the room
  code is the one character \<open>I\<close>; at the value \<open>0\<close> the numeral is \<open>0\<close> and the room code is
  empty. The code is not six characters long.
\<close>

theorem room_code_of_one_half:
  "toString36 (1, 1) = ''0.i'' \<and> generate_room_code (1, 1) = ''I'' \<and>
   length (generate_room_code (1, 1)) = 1 \<and>
   toString36 (0, 1) = ''0'' \<and> generate_room_code (0, 1) = []"
  by code_simp

section \<open>Status codes (C5)\<close>

lemma gemini_persist_failure_status:
  assumes "body (response (gemini_persist ev u p qs st cs)) = Failure f"
  shows "status (response (gemini_persist ev u p qs st cs)) = 500 \<and> interface_status f = 500"
  by (cases rule: gemini_persist_cases[of ev u p st qs cs]) (use assms in auto)

lemma gemini_failure_status:
  assumes "body (response (serve_gemini ev req st)) = Failure f"
  shows "status (response (serve_gemini ev req st)) = interface_status f"
proof (cases rule: serve_gemini_cases[of req ev st])
  case preflight
  then show ?thesis using assms by simp
next
  case (fail g cs)
  then show ?thesis using assms by simp
next
  case (persist authHeader u data raw batch validated)
  then show ?thesis using assms gemini_persist_failure_status[of ev u "json req" validated st] by simp
qed

text \<open>
  C5, in the OpenAI-backed handler: a request without the header, one with a token the
  identity provider rejects, and one of a principal who is no teacher are all answered
  with status 500, where the interface gives 401, 401 and 403.
\<close>

theorem openai_auth_failures_get_500:
  "response (serve OpenAI (collaborators one_question_text one_question_text one_question True)
     (post_request None algebra_params) empty_store) =
     \<lparr>status = 500, body = Failure NoAuthorizationHeader\<rparr> \<and>
   interface_status NoAuthorizationHeader = 401 \<and>
   response (serve OpenAI (collaborators one_question_text one_question_text one_question True)
     (post_request (Some ''Bearer token-0'') algebra_params) empty_store) =
     \<lparr>status = 500, body = Failure AuthenticationFailed\<rparr> \<and>
   interface_status AuthenticationFailed = 401 \<and>
   response (serve OpenAI (collaborators one_question_text one_question_text one_question True)
     (post_request (Some ''Bearer token-2'') algebra_params) empty_store) =
     \<lparr>status = 500, body = Failure TeachersOnly\<rparr> \<and>
   interface_status TeachersOnly = 403"
  by code_simp

section \<open>Code fences (C8)\<close>

text \<open>
  C8, in the OpenAI-backed handler: a completion wrapped in a fence reaches \<open>JSON.parse\<close>
  with both fence markers, and the request fails, where the Gemini-backed handler parses the
  text between the markers and succeeds.
\<close>

theorem openai_keeps_code_fences:
  "openai_text (openai_envelope fenced_text) = Inr fenced_text \<and>
   starts_with ''```'' fenced_text \<and> starts_with ''```'' (rev fenced_text) \<and>
   response (serve OpenAI (collaborators fenced_text one_question_text one_question True)
     teacher_request empty_store) = \<lparr>status = 500, body = Failure InvalidJSON\<rparr> \<and>
   clean_generated_text fenced_text = one_question_text \<and>
   status (response (serve Gemini (collaborators fenced_text one_question_text one_question True)
     teacher_request empty_store)) = 200"
  by code_simp

section \<open>Validation before persistence (C2)\<close>

lemma gemini_writes_only_validated:
  assumes "c \<in> set (calls (serve_gemini ev req st)) \<and> is_store_call c \<or>
           final_store (serve_gemini ev req st) \<noteq> st"
  shows "\<exists>batch. parsed_batch Gemini ev req = Some batch \<and> list_all acceptable batch"
proof (cases rule: serve_gemini_cases[of req ev st])
  case preflight
  then show ?thesis using assms by simp
next
  case (fail f cs)
  then show ?thesis using assms no_store_call_mem[OF fail(3)] by auto
next
  case (persist authHeader u data raw batch validated)
  have "parsed_batch Gemini ev req = Some batch"
    using persist by (simp add: array_of_def)
  moreover have "list_all acceptable batch"
    using validate_questions_Inr[OF persist(11)] by simp
  ultimately show ?thesis by blast
qed

text \<open>
  C2, in the OpenAI-backed handler: a batch whose one question has three options and the
  correct option 7 is written to both tables and the request succeeds, where the
  Gemini-backed handler rejects the batch and writes nothing.
\<close>

theorem openai_persists_unvalidated_batch:
  "\<not> acceptable (JObj [(''text'', JStr ''Q''),
        (''options'', JArr [JStr ''a'', JStr ''b'', JStr ''c'']), (''correctOption'', JNum 7)]) \<and>
   status (response (serve OpenAI
     (collaborators three_options_text three_options_text three_options True)
     teacher_request empty_store)) = 200 \<and>
   quiz_questions (final_store (serve OpenAI
     (collaborators three_options_text three_options_text three_options True)
     teacher_request empty_store)) =
     [\<lparr>q_quiz_id = 1, q_text = JStr ''Q'',
       q_options = JArr [JStr ''a'', JStr ''b'', JStr ''c''],
       correct_option = JNum 7, order_num = 1\<rparr>] \<and>
   map row_id (quizzes (final_store (serve OpenAI
     (collaborators three_options_text three_options_text three_options True)
     teacher_request empty_store))) = [1] \<and>
   response (serve Gemini
     (collaborators three_options_text three_options_text three_options True)
     teacher_request empty_store) =
     \<lparr>status = 500, body = Failure (InvalidQuestionStructure 0)\<rparr> \<and>
   final_store (serve Gemini
     (collaborators three_options_text three_options_text three_options True)
     teacher_request empty_store) = empty_store"
  by code_simp

section \<open>The validator (C7)\<close>

text \<open>
  C7 as stated fails: the validator lets a question through whose text is the number 5,
  whose options are four numbers and whose correct option is 3/2.
\<close>

theorem validator_accepts_non_strings_counterexample:
  "validate_questions 0
     [JObj [(''text'', JNum 5), (''options'', JArr [JNum 1, JNum 2, JNum 3, JNum 4]),
            (''correctOption'', JNum (3 / 2))]] =
   Inr [JObj [(''text'', JNum 5), (''options'', JArr [JNum 1, JNum 2, JNum 3, JNum 4]),
              (''correctOption'', JNum (3 / 2))]]"
  by (simp add: validate_question_def)

lemma validate_question_by_kind:
  "validate_question i q =
     (if nullish q then Inl RuntimeException
      else if \<not> well_structured q then Inl (InvalidQuestionStructure i)
      else if \<not> in_range q then Inl (InvalidCorrectOption (i + 1))
      else Inr (projection q))"
  by (cases q)
     (auto simp: validate_question_def well_structured_def in_range_def prop_value_def
        projection_def)

lemma acceptable_by_kind:
  "acceptable q = (\<not> nullish q \<and> well_structured q \<and> in_range q)"
  by (cases q)
     (auto simp: acceptable_def well_structured_def in_range_def prop_value_def)

text \<open>
  C7, amended. An element is acceptable when it is neither \<open>null\<close> nor \<open>undefined\<close>, is
  well structured (a truthy \<open>text\<close>, an array of length 4 as \<open>options\<close>, a number as
  \<open>correctOption\<close>) and is in range (\<open>correctOption\<close> from 0 to 3). The validator lets a
  batch through exactly when every element is acceptable; the batch then goes on whole,
  each element reduced to these three properties. Otherwise the first element that is not
  acceptable, at position \<open>i\<close>, ends the validation with the error of that element: the
  runtime's exception when it is \<open>null\<close>, else the structure error with \<open>i\<close> when it is not
  well structured, else the correct-option error with \<open>i + 1\<close>; the handler then answers
  500, calls the store not once and leaves it as it was.
\<close>

theorem validator_lets_through:
  "acceptable q = (\<not> nullish q \<and> well_structured q \<and> in_range q) \<and>
   (list_all acceptable qs \<longrightarrow> validate_questions 0 qs = Inr (map projection qs)) \<and>
   (\<not> list_all acceptable qs \<longrightarrow>
      (\<exists>f. validate_questions 0 qs = Inl f \<and>
           validate_question (length (takeWhile acceptable qs))
             (qs ! length (takeWhile acceptable qs)) = Inl f \<and>
           f \<in> {InvalidQuestionStructure (length (takeWhile acceptable qs)),
                InvalidCorrectOption (length (takeWhile acceptable qs) + 1),
                RuntimeException} \<and>
           f = (if nullish (qs ! length (takeWhile acceptable qs)) then RuntimeException
                else if \<not> well_structured (qs ! length (takeWhile acceptable qs))
                then InvalidQuestionStructure (length (takeWhile acceptable qs))
                else InvalidCorrectOption (length (takeWhile acceptable qs) + 1)) \<and>
           (JSON_parse ev (clean_generated_text raw) = Some (JArr qs) \<longrightarrow>
              gemini_parse ev u p raw st cs = failed 500 f st cs)))"
proof (intro conjI impI)
  show "acceptable q = (\<not> nullish q \<and> well_structured q \<and> in_range q)"
    by (rule acceptable_by_kind)
next
  assume "list_all acceptable qs"
  then show "validate_questions 0 qs = Inr (map projection qs)"
    by (rule validate_questions_acceptable)
next
  assume bad: "\<not> list_all acceptable qs"
  let ?i = "length (takeWhile acceptable qs)"
  from validate_questions_rejects[OF bad, of 0] obtain f where
    f: "validate_questions 0 qs = Inl f" "validate_question ?i (qs ! ?i) = Inl f"
    by auto
  have kind: "f \<in> {InvalidQuestionStructure ?i, InvalidCorrectOption (?i + 1), RuntimeException}"
    using validate_question_Inl[OF f(2)] by auto
  have which: "f = (if nullish (qs ! ?i) then RuntimeException
                else if \<not> well_structured (qs ! ?i) then InvalidQuestionStructure ?i
                else InvalidCorrectOption (?i + 1))"
    using f(2) by (simp add: validate_question_by_kind split: if_splits)
  have nonempty: "qs \<noteq> []" using bad by auto
  have "gemini_parse ev u p raw st cs = failed 500 f st cs"
    if "JSON_parse ev (clean_generated_text raw) = Some (JArr qs)"
    using that f(1) nonempty by (simp add: gemini_parse_def)
  with f kind which show "\<exists>f. validate_questions 0 qs = Inl f \<and>
           validate_question ?i (qs ! ?i) = Inl f \<and>
           f \<in> {InvalidQuestionStructure ?i, InvalidCorrectOption (?i + 1), RuntimeException} \<and>
           f = (if nullish (qs ! ?i) then RuntimeException
                else if \<not> well_structured (qs ! ?i) then InvalidQuestionStructure ?i
                else InvalidCorrectOption (?i + 1)) \<and>
           (JSON_parse ev (clean_generated_text raw) = Some (JArr qs) \<longrightarrow>
              gemini_parse ev u p raw st cs = failed 500 f st cs)"
    by blast
qed

theorem validator_lets_through_witness:
  "list_all acceptable [JObj [(''text'', JStr ''Q''),
       (''options'', JArr [JStr ''a'', JStr ''b'', JStr ''c'', JStr ''d'']),
       (''correctOption'', JNum 0)]] \<and>
   validate_questions 0 [JObj [(''text'', JStr ''Q''),
       (''options'', JArr [JStr ''a'', JStr ''b'', JStr ''c'', JStr ''d'']),
       (''correctOption'', JNum 0)]] =
     Inr [JObj [(''text'', JStr ''Q''),
       (''options'', JArr [JStr ''a'', JStr ''b'', JStr ''c'', JStr ''d'']),
       (''correctOption'', JNum 0)]] \<and>
   \<not> list_all acceptable [JObj [(''text'', JStr ''Q''),
       (''options'', JArr [JStr ''a'', JStr ''b'', JStr ''c'', JStr ''d'']),
       (''correctOption'', JNum 0)],
     JObj [(''text'', JStr ''R''),
       (''options'', JArr [JStr ''a'', JStr ''b'', JStr ''c'']),
       (''correctOption'', JNum 7)]] \<and>
   validate_questions 0 [JObj [(''text'', JStr ''Q''),
       (''options'', JArr [JStr ''a'', JStr ''b'', JStr ''c'', JStr ''d'']),
       (''correctOption'', JNum 0)],
     JObj [(''text'', JStr ''R''),
       (''options'', JArr [JStr ''a'', JStr ''b'', JStr ''c'']),
       (''correctOption'', JNum 7)]] = Inl (InvalidQuestionStructure 1) \<and>
   \<not> list_all acceptable [JObj [(''text'', JStr ''S''),
       (''options'', JArr [JStr ''a'', JStr ''b'', JStr ''c'', JStr ''d'']),
       (''correctOption'', JNum 4)]] \<and>
   validate_questions 0 [JObj [(''text'', JStr ''S''),
       (''options'', JArr [JStr ''a'', JStr ''b'', JStr ''c'', JStr ''d'']),
       (''correctOption'', JNum 4)]] = Inl (InvalidCorrectOption 1) \<and>
   \<not> list_all acceptable [JNull] \<and>
   validate_questions 0 [JNull] = Inl RuntimeException \<and>
   JSON_parse (collaborators three_options_text three_options_text three_options True)
     (clean_generated_text three_options_text) = Some three_options \<and>
   gemini_parse (collaborators three_options_text three_options_text three_options True)
     teacher algebra_params three_options_text empty_store [] =
     failed 500 (InvalidQuestionStructure 0) empty_store []"
proof -
  let ?good = "JObj [(''text'', JStr ''Q''),
       (''options'', JArr [JStr ''a'', JStr ''b'', JStr ''c'', JStr ''d'']),
       (''correctOption'', JNum 0)]"
  let ?bad = "JObj [(''text'', JStr ''R''),
       (''options'', JArr [JStr ''a'', JStr ''b'', JStr ''c'']),
       (''correctOption'', JNum 7)]"
  let ?far = "JObj [(''text'', JStr ''S''),
       (''options'', JArr [JStr ''a'', JStr ''b'', JStr ''c'', JStr ''d'']),
       (''correctOption'', JNum 4)]"
  let ?three = "JObj [(''text'', JStr ''Q''),
       (''options'', JArr [JStr ''a'', JStr ''b'', JStr ''c'']),
       (''correctOption'', JNum 7)]"
  let ?ev = "collaborators three_options_text three_options_text three_options True"
  have a: "acceptable ?good" by (simp add: acceptable_def)
  have b: "\<not> acceptable ?bad" by (simp add: acceptable_def)
  have c: "\<not> acceptable ?far" by (simp add: acceptable_def)
  have d: "\<not> acceptable JNull" by (simp add: acceptable_def)
  have e: "\<not> acceptable ?three" by (simp add: acceptable_def)
  have 1: "list_all acceptable [?good]" using a by simp
  have 2: "\<not> list_all acceptable [?good, ?bad]" using b by simp
  have 5: "\<not> list_all acceptable [?far]" using c by simp
  have 7: "\<not> list_all acceptable [JNull]" using d by simp
  have 9: "\<not> list_all acceptable [?three]" using e by simp
  have p: "projection ?good = ?good" by (simp add: projection_def prop_value_def)
  have 3: "validate_questions 0 [?good] = Inr [?good]"
    using validator_lets_through[of _ "[?good]"] 1 p by simp
  have i: "length (takeWhile acceptable [?good, ?bad]) = 1" using a b by simp
  have wb: "\<not> nullish ?bad \<and> \<not> well_structured ?bad"
    by (simp add: well_structured_def prop_value_def)
  have 4: "validate_questions 0 [?good, ?bad] = Inl (InvalidQuestionStructure 1)"
    using validator_lets_through[of _ "[?good, ?bad]"] 2 i wb by auto
  have j: "length (takeWhile acceptable [?far]) = 0" using c by simp
  have wf: "\<not> nullish ?far \<and> well_structured ?far"
    by (simp add: well_structured_def prop_value_def)
  have 6: "validate_questions 0 [?far] = Inl (InvalidCorrectOption 1)"
    using validator_lets_through[of _ "[?far]"] 5 j wf by auto
  have k: "length (takeWhile acceptable [JNull]) = 0" using d by simp
  have 8: "validate_questions 0 [JNull] = Inl RuntimeException"
    using validator_lets_through[of _ "[JNull]"] 7 k by auto
  have parse: "JSON_parse ?ev (clean_generated_text three_options_text) = Some three_options"
    by code_simp
  have parse': "JSON_parse ?ev (clean_generated_text three_options_text) = Some (JArr [?three])"
    using parse by (simp add: three_options_def)
  have l: "length (takeWhile acceptable [?three]) = 0" using e by simp
  have wt: "\<not> nullish ?three \<and> \<not> well_structured ?three"
    by (simp add: well_structured_def prop_value_def)
  have 10: "gemini_parse ?ev teacher algebra_params three_options_text empty_store [] =
      failed 500 (InvalidQuestionStructure 0) empty_store []"
    using validator_lets_through[where qs = "[?three]" and ev = ?ev
        and raw = three_options_text and u = teacher and p = algebra_params
        and st = empty_store and cs = "[]"] 9 l wt parse'
    by auto
  show ?thesis using 1 2 3 4 5 6 7 8 parse 10 by simp
qed

section \<open>The number of questions of a success (C1)\<close>

lemma validate_questions_length:
  assumes "validate_questions i qs = Inr out"
  shows "length out = length qs"
  using validate_questions_Inr[OF assms] by simp

lemma gemini_persist_success:
  assumes "body (response (gemini_persist ev u p qs st cs)) = Success summ out"
  shows "out = qs \<and> questionsCount summ = length qs \<and>
         status (response (gemini_persist ev u p qs st cs)) = 200"
  by (cases rule: gemini_persist_cases[of ev u p st qs cs]) (use assms in auto)

lemma openai_persist_success:
  assumes "body (response (openai_persist ev u p qs st cs)) = Success summ out"
  shows "out = qs \<and> questionsCount summ = length qs \<and>
         status (response (openai_persist ev u p qs st cs)) = 200"
  by (cases rule: openai_persist_cases[of ev u p st qs cs]) (use assms in auto)

text \<open>
  C1 as stated fails: for \<open>numQuestions = 3\<close> and a completion with one well-formed
  question, both handlers answer with a success whose \<open>questions\<close> has length 1 and whose
  \<open>questionsCount\<close> is 1.
\<close>

theorem success_with_fewer_questions_counterexample:
  "numQuestions (json teacher_request) = 3 \<and>
   body (response (serve Gemini
     (collaborators one_question_text one_question_text one_question True)
     teacher_request empty_store)) =
     Success \<lparr>quiz_id = 1, quiz_title = ''AI Generated: Mathematics - Algebra'',
              quiz_description = ''AI-generated quiz on Algebra (Easy level)'',
              roomCode = ''I'', questionsCount = 1\<rparr>
       [JObj [(''text'', JStr ''Q''),
              (''options'', JArr [JStr ''a'', JStr ''b'', JStr ''c'', JStr ''d'']),
              (''correctOption'', JNum 0)]] \<and>
   body (response (serve OpenAI
     (collaborators one_question_text one_question_text one_question True)
     teacher_request empty_store)) =
     Success \<lparr>quiz_id = 1, quiz_title = ''AI Generated: Mathematics - Algebra'',
              quiz_description = ''AI-generated quiz on Algebra (Easy level)'',
              roomCode = ''I'', questionsCount = 1\<rparr>
       [JObj [(''text'', JStr ''Q''),
              (''options'', JArr [JStr ''a'', JStr ''b'', JStr ''c'', JStr ''d'']),
              (''correctOption'', JNum 0)]]"
  by code_simp

text \<open>
  C1, amended. Whenever a handler answers with a success, \<open>questionsCount\<close> is the length
  of the response's \<open>questions\<close>, and that is the length of the array \<open>JSON.parse\<close> gave
  for the backend's completion, which is not empty; the status is 200. Neither handler
  compares it with \<open>numQuestions\<close>.
\<close>

theorem success_count_is_batch_length:
  assumes "body (response (serve v ev req st)) = Success summ qs"
  shows "questionsCount summ = length qs \<and>
         status (response (serve v ev req st)) = 200 \<and>
         (\<exists>batch. parsed_batch v ev req = Some batch \<and> batch \<noteq> [] \<and>
                  length qs = length batch)"
proof (cases v)
  case Gemini
  show ?thesis
  proof (cases rule: serve_gemini_cases[of req ev st])
    case preflight
    then show ?thesis using assms Gemini by simp
  next
    case (fail f cs)
    then show ?thesis using assms Gemini by simp
  next
    case (persist authHeader u data raw batch validated)
    have s: "body (response (gemini_persist ev u (json req) validated st
        [AuthGetUser (remove_first ''Bearer '' authHeader), TeacherLookup (user_id u),
         GeminiFetch (gemini_prompt (json req))])) = Success summ qs"
      using assms Gemini persist(12) by simp
    have b: "parsed_batch Gemini ev req = Some batch"
      using persist by (simp add: array_of_def)
    show ?thesis
      using gemini_persist_success[OF s] validate_questions_length[OF persist(11)]
        b persist(10) persist(12) Gemini
      by simp
  qed
next
  case OpenAI
  show ?thesis
  proof (cases rule: serve_openai_cases[of req ev st])
    case preflight
    then show ?thesis using assms OpenAI by simp
  next
    case (fail f cs)
    then show ?thesis using assms OpenAI by simp
  next
    case (persist authHeader u data raw batch)
    have s: "body (response (openai_persist ev u (json req) batch st
        [AuthGetUser (remove_first ''Bearer '' authHeader), TeacherLookup (user_id u),
         OpenAIFetch (openai_prompt (json req))])) = Success summ qs"
      using assms OpenAI persist(11) by simp
    have b: "parsed_batch OpenAI ev req = Some batch"
      using persist by (simp add: array_of_def)
    show ?thesis
      using openai_persist_success[OF s] b persist(10) persist(11) OpenAI
      by simp
  qed
qed

theorem success_count_is_batch_length_witness:
  "body (response (serve Gemini
     (collaborators one_question_text one_question_text one_question True)
     teacher_request empty_store)) =
     Success \<lparr>quiz_id = 1, quiz_title = ''AI Generated: Mathematics - Algebra'',
              quiz_description = ''AI-generated quiz on Algebra (Easy level)'',
              roomCode = ''I'', questionsCount = 1\<rparr>
       [JObj [(''text'', JStr ''Q''),
              (''options'', JArr [JStr ''a'', JStr ''b'', JStr ''c'', JStr ''d'']),
              (''correctOption'', JNum 0)]] \<and>
   status (response (serve Gemini
     (collaborators one_question_text one_question_text one_question True)
     teacher_request empty_store)) = 200 \<and>
   (\<exists>batch. parsed_batch Gemini
      (collaborators one_question_text one_question_text one_question True)
      teacher_request = Some batch \<and> length batch = 1)"
proof -
  let ?ev = "collaborators one_question_text one_question_text one_question True"
  let ?summ = "\<lparr>quiz_id = 1, quiz_title = ''AI Generated: Mathematics - Algebra'',
              quiz_description = ''AI-generated quiz on Algebra (Easy level)'',
              roomCode = ''I'', questionsCount = 1\<rparr>"
  let ?qs = "[JObj [(''text'', JStr ''Q''),
              (''options'', JArr [JStr ''a'', JStr ''b'', JStr ''c'', JStr ''d'']),
              (''correctOption'', JNum 0)]]"
  have h: "body (response (serve Gemini ?ev teacher_request empty_store)) = Success ?summ ?qs"
    by code_simp
  from success_count_is_batch_length[OF h]
  have "status (response (serve Gemini ?ev teacher_request empty_store)) = 200 \<and>
        (\<exists>batch. parsed_batch Gemini ?ev teacher_request = Some batch \<and> length batch = 1)"
    by auto
  with h show ?thesis by simp
qed

section \<open>Default title and description (C10)\<close>

lemma or_else_empty: "or_else (Some []) d = or_else None d"
  by (simp add: or_else_def)

lemma or_else_not_empty: "d \<noteq> [] \<Longrightarrow> or_else s d \<noteq> []"
  by (simp add: or_else_def split: option.splits)

lemma or_else_default: "s = None \<or> s = Some [] \<Longrightarrow> or_else s d = d"
  by (auto simp: or_else_def)

lemma gemini_persist_title:
  "gemini_persist ev u (p\<lparr>title := Some []\<rparr>) qs st cs =
   gemini_persist ev u (p\<lparr>title := None\<rparr>) qs st cs"
  by (simp add: gemini_persist_def or_else_def default_title_def default_description_def)

lemma gemini_persist_description:
  "gemini_persist ev u (p\<lparr>description := Some []\<rparr>) qs st cs =
   gemini_persist ev u (p\<lparr>description := None\<rparr>) qs st cs"
  by (simp add: gemini_persist_def or_else_def default_title_def default_description_def)

lemma openai_persist_title:
  "openai_persist ev u (p\<lparr>title := Some []\<rparr>) qs st cs =
   openai_persist ev u (p\<lparr>title := None\<rparr>) qs st cs"
  by (simp add: openai_persist_def or_else_def default_title_def default_description_def)

lemma openai_persist_description:
  "openai_persist ev u (p\<lparr>description := Some []\<rparr>) qs st cs =
   openai_persist ev u (p\<lparr>description := None\<rparr>) qs st cs"
  by (simp add: openai_persist_def or_else_def default_title_def default_description_def)

lemma gemini_prompt_title [simp]:
  "gemini_prompt (p\<lparr>title := t\<rparr>) = gemini_prompt p"
  "gemini_prompt (p\<lparr>description := t\<rparr>) = gemini_prompt p"
  by (simp_all add: gemini_prompt_def)

lemma openai_prompt_title [simp]:
  "openai_prompt (p\<lparr>title := t\<rparr>) = openai_prompt p"
  "openai_prompt (p\<lparr>description := t\<rparr>) = openai_prompt p"
  by (simp_all add: openai_prompt_def)

lemma serve_gemini_title:
  "serve_gemini ev (req\<lparr>json := p\<lparr>title := Some []\<rparr>\<rparr>) st =
   serve_gemini ev (req\<lparr>json := p\<lparr>title := None\<rparr>\<rparr>) st"
  by (simp add: serve_gemini_def gemini_generate_def gemini_parse_def gemini_persist_title
      cong: option.case_cong fetch_result.case_cong sum.case_cong jsval.case_cong if_cong)

lemma serve_gemini_description:
  "serve_gemini ev (req\<lparr>json := p\<lparr>description := Some []\<rparr>\<rparr>) st =
   serve_gemini ev (req\<lparr>json := p\<lparr>description := None\<rparr>\<rparr>) st"
  by (simp add: serve_gemini_def gemini_generate_def gemini_parse_def gemini_persist_description
      cong: option.case_cong fetch_result.case_cong sum.case_cong jsval.case_cong if_cong)

lemma serve_openai_title:
  "serve_openai ev (req\<lparr>json := p\<lparr>title := Some []\<rparr>\<rparr>) st =
   serve_openai ev (req\<lparr>json := p\<lparr>title := None\<rparr>\<rparr>) st"
  by (simp add: serve_openai_def openai_generate_def openai_parse_def openai_persist_title
      cong: option.case_cong fetch_result.case_cong sum.case_cong jsval.case_cong if_cong)

lemma serve_openai_description:
  "serve_openai ev (req\<lparr>json := p\<lparr>description := Some []\<rparr>\<rparr>) st =
   serve_openai ev (req\<lparr>json := p\<lparr>description := None\<rparr>\<rparr>) st"
  by (simp add: serve_openai_def openai_generate_def openai_parse_def openai_persist_description
      cong: option.case_cong fetch_result.case_cong sum.case_cong jsval.case_cong if_cong)

lemma gemini_persist_inserted:
  assumes "InsertQuiz row \<in> set (calls (gemini_persist ev u p qs st cs))"
    and "filter is_store_call cs = []"
  shows "row = quiz_to_insert ev u p"
proof -
  have "InsertQuiz row \<notin> set cs" using no_store_call_mem[OF assms(2)] by simp
  then show ?thesis
    by (cases rule: gemini_persist_cases[of ev u p st qs cs]) (use assms(1) in auto)
qed

lemma openai_persist_inserted:
  assumes "InsertQuiz row \<in> set (calls (openai_persist ev u p qs st cs))"
    and "filter is_store_call cs = []"
  shows "row = quiz_to_insert ev u p"
proof -
  have "InsertQuiz row \<notin> set cs" using no_store_call_mem[OF assms(2)] by simp
  then show ?thesis
    by (cases rule: openai_persist_cases[of ev u p st qs cs]) (use assms(1) in auto)
qed

lemma serve_inserted:
  assumes "InsertQuiz row \<in> set (calls (serve v ev req st))"
  shows "\<exists>u. row = quiz_to_insert ev u (json req)"
proof (cases v)
  case Gemini
  show ?thesis
  proof (cases rule: serve_gemini_cases[of req ev st])
    case preflight
    then show ?thesis using assms Gemini by simp
  next
    case (fail f cs)
    then show ?thesis using assms Gemini no_store_call_mem[OF fail(3)] by simp
  next
    case (persist authHeader u data raw batch validated)
    let ?cs = "[AuthGetUser (remove_first ''Bearer '' authHeader), TeacherLookup (user_id u),
            GeminiFetch (gemini_prompt (json req))]"
    have cs: "filter is_store_call ?cs = []" by simp
    have "InsertQuiz row \<in> set (calls (gemini_persist ev u (json req) validated st ?cs))"
      using assms Gemini persist(12) by simp
    from gemini_persist_inserted[OF this cs] show ?thesis by blast
  qed
next
  case OpenAI
  show ?thesis
  proof (cases rule: serve_openai_cases[of req ev st])
    case preflight
    then show ?thesis using assms OpenAI by simp
  next
    case (fail f cs)
    then show ?thesis using assms OpenAI no_store_call_mem[OF fail(3)] by simp
  next
    case (persist authHeader u data raw batch)
    let ?cs = "[AuthGetUser (remove_first ''Bearer '' authHeader), TeacherLookup (user_id u),
            OpenAIFetch (openai_prompt (json req))]"
    have cs: "filter is_store_call ?cs = []" by simp
    have "InsertQuiz row \<in> set (calls (openai_persist ev u (json req) batch st ?cs))"
      using assms OpenAI persist(11) by simp
    from openai_persist_inserted[OF this cs] show ?thesis by blast
  qed
qed

lemma parsed_batch_Gemini:
  assumes "parsed_batch Gemini ev req = Some batch"
  obtains data raw where "gemini_fetch ev (gemini_prompt (json req)) = HttpJson data"
    "gemini_text data = Inr raw"
    "JSON_parse ev (clean_generated_text raw) = Some (JArr batch)"
proof (cases "gemini_fetch ev (gemini_prompt (json req))")
  case (HttpJson data)
  show ?thesis
  proof (cases "gemini_text data")
    case (Inl f)
    then show ?thesis using assms HttpJson by simp
  next
    case (Inr raw)
    then have "array_of (JSON_parse ev (clean_generated_text raw)) = Some batch"
      using assms HttpJson by simp
    then have "JSON_parse ev (clean_generated_text raw) = Some (JArr batch)"
      by (auto simp: array_of_def split: option.splits jsval.splits)
    then show ?thesis using that HttpJson Inr by blast
  qed
qed (use assms in simp_all)

lemma parsed_batch_OpenAI:
  assumes "parsed_batch OpenAI ev req = Some batch"
  obtains data raw where "openai_fetch ev (openai_prompt (json req)) = HttpJson data"
    "openai_text data = Inr raw"
    "JSON_parse ev raw = Some (JArr batch)"
proof (cases "openai_fetch ev (openai_prompt (json req))")
  case (HttpJson data)
  show ?thesis
  proof (cases "openai_text data")
    case (Inl f)
    then show ?thesis using assms HttpJson by simp
  next
    case (Inr raw)
    then have "array_of (JSON_parse ev raw) = Some batch"
      using assms HttpJson by simp
    then have "JSON_parse ev raw = Some (JArr batch)"
      by (auto simp: array_of_def split: option.splits jsval.splits)
    then show ?thesis using that HttpJson Inr by blast
  qed
qed (use assms in simp_all)



lemma serve_gemini_reaches_persist:
  assumes "req_method req \<noteq> ''OPTIONS''"
    and "authorization req = Some h" and "h \<noteq> []"
    and "auth_getUser ev (remove_first ''Bearer '' h) = Some u"
    and "teacher_found ev (user_id u)"
    and "\<not> falsy_string (GEMINI_API_KEY ev)"
    and "parsed_batch Gemini ev req = Some batch" and "batch \<noteq> []"
    and "list_all acceptable batch"
  shows "serve_gemini ev req st =
           gemini_persist ev u (json req) (map projection batch) st
             [AuthGetUser (remove_first ''Bearer '' h), TeacherLookup (user_id u),
              GeminiFetch (gemini_prompt (json req))]"
proof -
  from assms(7) obtain data raw where
    f: "gemini_fetch ev (gemini_prompt (json req)) = HttpJson data"
      "gemini_text data = Inr raw"
      "JSON_parse ev (clean_generated_text raw) = Some (JArr batch)"
    by (rule parsed_batch_Gemini)
  have v: "validate_questions 0 batch = Inr (map projection batch)"
    using assms(9) by (rule validate_questions_acceptable)
  show ?thesis
    using assms(1-6,8) f v
    by (simp add: serve_gemini_def gemini_generate_def gemini_parse_def)
qed

lemma serve_openai_reaches_persist:
  assumes "req_method req \<noteq> ''OPTIONS''"
    and "authorization req = Some h" and "h \<noteq> []"
    and "auth_getUser ev (remove_first ''Bearer '' h) = Some u"
    and "teacher_found ev (user_id u)"
    and "\<not> falsy_string (OPENAI_API_KEY ev)"
    and "parsed_batch OpenAI ev req = Some batch" and "batch \<noteq> []"
  shows "serve_openai ev req st =
           openai_persist ev u (json req) batch st
             [AuthGetUser (remove_first ''Bearer '' h), TeacherLookup (user_id u),
              OpenAIFetch (openai_prompt (json req))]"
proof -
  from assms(7) obtain data raw where
    f: "openai_fetch ev (openai_prompt (json req)) = HttpJson data"
      "openai_text data = Inr raw"
      "JSON_parse ev raw = Some (JArr batch)"
    by (rule parsed_batch_OpenAI)
  show ?thesis
    using assms(1-6,8) f
    by (simp add: serve_openai_def openai_generate_def openai_parse_def)
qed

lemma gemini_persist_calls_insert:
  "InsertQuiz (quiz_to_insert ev u p) \<in> set (calls (gemini_persist ev u p qs st cs))"
  by (cases rule: gemini_persist_cases[of ev u p st qs cs]) simp_all

lemma openai_persist_calls_insert:
  "InsertQuiz (quiz_to_insert ev u p) \<in> set (calls (openai_persist ev u p qs st cs))"
  by (cases rule: openai_persist_cases[of ev u p st qs cs]) simp_all

lemma gemini_persist_committed:
  assumes "body (response (gemini_persist ev u p qs st cs)) = Success summ out"
  shows "\<exists>quizData.
           quizzes (final_store (gemini_persist ev u p qs st cs)) = quizzes st @ [quizData] \<and>
           row_id quizData = quiz_id summ \<and>
           row_title quizData = or_else (title p) (default_title p) \<and>
           row_description quizData = or_else (description p) (default_description p) \<and>
           quiz_title summ = row_title quizData \<and>
           quiz_description summ = row_description quizData"
proof (cases rule: gemini_persist_cases[of ev u p st qs cs])
  case (committed quizData st1 rows st2)
  then show ?thesis
    using assms insert_quiz_Some[OF committed(1)] insert_questions_True[OF committed(3)]
    by (intro exI[of _ quizData]) (auto simp: quiz_to_insert_def)
qed (use assms in simp_all)

lemma openai_persist_committed:
  assumes "body (response (openai_persist ev u p qs st cs)) = Success summ out"
  shows "\<exists>quizData.
           quizzes (final_store (openai_persist ev u p qs st cs)) = quizzes st @ [quizData] \<and>
           row_id quizData = quiz_id summ \<and>
           row_title quizData = or_else (title p) (default_title p) \<and>
           row_description quizData = or_else (description p) (default_description p) \<and>
           quiz_title summ = row_title quizData \<and>
           quiz_description summ = row_description quizData"
proof (cases rule: openai_persist_cases[of ev u p st qs cs])
  case (committed quizData st1 rows st2)
  then show ?thesis
    using assms insert_quiz_Some[OF committed(1)] insert_questions_True[OF committed(3)]
    by (intro exI[of _ quizData]) (auto simp: quiz_to_insert_def)
qed (use assms in simp_all)

lemma serve_committed:
  assumes "body (response (serve v ev req st)) = Success summ out"
  shows "\<exists>quizData.
           quizzes (final_store (serve v ev req st)) = quizzes st @ [quizData] \<and>
           row_id quizData = quiz_id summ \<and>
           row_title quizData = or_else (title (json req)) (default_title (json req)) \<and>
           row_description quizData =
             or_else (description (json req)) (default_description (json req)) \<and>
           quiz_title summ = row_title quizData \<and>
           quiz_description summ = row_description quizData"
proof (cases v)
  case Gemini
  show ?thesis
  proof (cases rule: serve_gemini_cases[of req ev st])
    case preflight
    then show ?thesis using assms Gemini by simp
  next
    case (fail f cs)
    then show ?thesis using assms Gemini by simp
  next
    case (persist authHeader u data raw batch validated)
    let ?cs = "[AuthGetUser (remove_first ''Bearer '' authHeader), TeacherLookup (user_id u),
            GeminiFetch (gemini_prompt (json req))]"
    have eq: "serve v ev req st = gemini_persist ev u (json req) validated st ?cs"
      using Gemini persist(12) by simp
    show ?thesis using assms unfolding eq by (rule gemini_persist_committed)
  qed
next
  case OpenAI
  show ?thesis
  proof (cases rule: serve_openai_cases[of req ev st])
    case preflight
    then show ?thesis using assms OpenAI by simp
  next
    case (fail f cs)
    then show ?thesis using assms OpenAI by simp
  next
    case (persist authHeader u data raw batch)
    let ?cs = "[AuthGetUser (remove_first ''Bearer '' authHeader), TeacherLookup (user_id u),
            OpenAIFetch (openai_prompt (json req))]"
    have eq: "serve v ev req st = openai_persist ev u (json req) batch st ?cs"
      using OpenAI persist(11) by simp
    show ?thesis using assms unfolding eq by (rule openai_persist_committed)
  qed
qed

text \<open>
  C10. For both handlers, a request whose title is the empty string has the same outcome
  (response, store and calls) as the request with the title left out, and likewise for the
  description. The row a handler inserts into \<open>quizzes\<close> never has an empty title or an
  empty description, and it has the default title, and the default description, when the
  caller's is left out or empty. A handler does insert that row for a teacher whose
  completion parses to a batch of acceptable questions; and on a success the quiz in the
  store and the summary carry the caller's title or, when it is left out or empty, the
  default one, and likewise the description.
\<close>

theorem empty_title_is_omitted_title:
  "serve v ev (req\<lparr>json := p\<lparr>title := Some []\<rparr>\<rparr>) st =
     serve v ev (req\<lparr>json := p\<lparr>title := None\<rparr>\<rparr>) st \<and>
   serve v ev (req\<lparr>json := p\<lparr>description := Some []\<rparr>\<rparr>) st =
     serve v ev (req\<lparr>json := p\<lparr>description := None\<rparr>\<rparr>) st \<and>
   (InsertQuiz row \<in> set (calls (serve v ev req st)) \<longrightarrow>
      ins_title row \<noteq> [] \<and> ins_description row \<noteq> [] \<and>
      (title (json req) = None \<or> title (json req) = Some [] \<longrightarrow>
         ins_title row =
           ''AI Generated: '' @ subject (json req) @ '' - '' @ topic (json req)) \<and>
      (description (json req) = None \<or> description (json req) = Some [] \<longrightarrow>
         ins_description row =
           ''AI-generated quiz on '' @ topic (json req) @ '' ('' @
           complexity_name (complexity (json req)) @ '' level)'')) \<and>
   (req_method req \<noteq> ''OPTIONS'' \<and> authorization req = Some h \<and> h \<noteq> [] \<and>
    auth_getUser ev (remove_first ''Bearer '' h) = Some u \<and> teacher_found ev (user_id u) \<and>
    \<not> falsy_string (GEMINI_API_KEY ev) \<and> \<not> falsy_string (OPENAI_API_KEY ev) \<and>
    parsed_batch v ev req = Some batch \<and> batch \<noteq> [] \<and> list_all acceptable batch \<longrightarrow>
      InsertQuiz (quiz_to_insert ev u (json req)) \<in> set (calls (serve v ev req st))) \<and>
   (body (response (serve v ev req st)) = Success summ qs \<longrightarrow>
      (\<exists>quizData.
         quizzes (final_store (serve v ev req st)) = quizzes st @ [quizData] \<and>
         row_id quizData = quiz_id summ \<and>
         row_title quizData = or_else (title (json req)) (default_title (json req)) \<and>
         row_description quizData =
           or_else (description (json req)) (default_description (json req)) \<and>
         quiz_title summ = row_title quizData \<and>
         quiz_description summ = row_description quizData \<and>
         row_title quizData \<noteq> [] \<and> row_description quizData \<noteq> [] \<and>
         (title (json req) = None \<or> title (json req) = Some [] \<longrightarrow>
            row_title quizData =
              ''AI Generated: '' @ subject (json req) @ '' - '' @ topic (json req)) \<and>
         (description (json req) = None \<or> description (json req) = Some [] \<longrightarrow>
            row_description quizData =
              ''AI-generated quiz on '' @ topic (json req) @ '' ('' @
              complexity_name (complexity (json req)) @ '' level)'')))"
proof (intro conjI impI)
  show "serve v ev (req\<lparr>json := p\<lparr>title := Some []\<rparr>\<rparr>) st =
     serve v ev (req\<lparr>json := p\<lparr>title := None\<rparr>\<rparr>) st"
    by (cases v) (simp_all add: serve_gemini_title serve_openai_title)
  show "serve v ev (req\<lparr>json := p\<lparr>description := Some []\<rparr>\<rparr>) st =
     serve v ev (req\<lparr>json := p\<lparr>description := None\<rparr>\<rparr>) st"
    by (cases v) (simp_all add: serve_gemini_description serve_openai_description)
next
  assume "InsertQuiz row \<in> set (calls (serve v ev req st))"
  then obtain u where row: "row = quiz_to_insert ev u (json req)"
    using serve_inserted by blast
  show "ins_title row \<noteq> []"
    using row by (simp add: quiz_to_insert_def or_else_not_empty default_title_def)
  show "ins_description row \<noteq> []"
    using row by (simp add: quiz_to_insert_def or_else_not_empty default_description_def)
  show "ins_title row = ''AI Generated: '' @ subject (json req) @ '' - '' @ topic (json req)"
    if "title (json req) = None \<or> title (json req) = Some []"
    using row or_else_default[OF that] by (simp add: quiz_to_insert_def default_title_def)
  show "ins_description row = ''AI-generated quiz on '' @ topic (json req) @ '' ('' @
           complexity_name (complexity (json req)) @ '' level)''"
    if "description (json req) = None \<or> description (json req) = Some []"
    using row or_else_default[OF that] by (simp add: quiz_to_insert_def default_description_def)
next
  assume a: "req_method req \<noteq> ''OPTIONS'' \<and> authorization req = Some h \<and> h \<noteq> [] \<and>
    auth_getUser ev (remove_first ''Bearer '' h) = Some u \<and> teacher_found ev (user_id u) \<and>
    \<not> falsy_string (GEMINI_API_KEY ev) \<and> \<not> falsy_string (OPENAI_API_KEY ev) \<and>
    parsed_batch v ev req = Some batch \<and> batch \<noteq> [] \<and> list_all acceptable batch"
  show "InsertQuiz (quiz_to_insert ev u (json req)) \<in> set (calls (serve v ev req st))"
  proof (cases v)
    case Gemini
    then have "serve v ev req st =
        gemini_persist ev u (json req) (map projection batch) st
          [AuthGetUser (remove_first ''Bearer '' h), TeacherLookup (user_id u),
           GeminiFetch (gemini_prompt (json req))]"
      using a serve_gemini_reaches_persist[of req h ev u batch st] by simp
    then show ?thesis by (simp add: gemini_persist_calls_insert)
  next
    case OpenAI
    then have "serve v ev req st =
        openai_persist ev u (json req) batch st
          [AuthGetUser (remove_first ''Bearer '' h), TeacherLookup (user_id u),
           OpenAIFetch (openai_prompt (json req))]"
      using a serve_openai_reaches_persist[of req h ev u batch st] by simp
    then show ?thesis by (simp add: openai_persist_calls_insert)
  qed
next
  assume "body (response (serve v ev req st)) = Success summ qs"
  from serve_committed[OF this] obtain quizData where
    q: "quizzes (final_store (serve v ev req st)) = quizzes st @ [quizData]"
      "row_id quizData = quiz_id summ"
      "row_title quizData = or_else (title (json req)) (default_title (json req))"
      "row_description quizData =
         or_else (description (json req)) (default_description (json req))"
      "quiz_title summ = row_title quizData"
      "quiz_description summ = row_description quizData"
    by blast
  have t: "row_title quizData \<noteq> []"
    using q(3) by (simp add: or_else_not_empty default_title_def)
  have d: "row_description quizData \<noteq> []"
    using q(4) by (simp add: or_else_not_empty default_description_def)
  have t': "row_title quizData =
      ''AI Generated: '' @ subject (json req) @ '' - '' @ topic (json req)"
    if "title (json req) = None \<or> title (json req) = Some []"
    using q(3) or_else_default[OF that] by (simp add: default_title_def)
  have d': "row_description quizData =
      ''AI-generated quiz on '' @ topic (json req) @ '' ('' @
      complexity_name (complexity (json req)) @ '' level)''"
    if "description (json req) = None \<or> description (json req) = Some []"
    using q(4) or_else_default[OF that] by (simp add: default_description_def)
  show "\<exists>quizData.
         quizzes (final_store (serve v ev req st)) = quizzes st @ [quizData] \<and>
         row_id quizData = quiz_id summ \<and>
         row_title quizData = or_else (title (json req)) (default_title (json req)) \<and>
         row_description quizData =
           or_else (description (json req)) (default_description (json req)) \<and>
         quiz_title summ = row_title quizData \<and>
         quiz_description summ = row_description quizData \<and>
         row_title quizData \<noteq> [] \<and> row_description quizData \<noteq> [] \<and>
         (title (json req) = None \<or> title (json req) = Some [] \<longrightarrow>
            row_title quizData =
              ''AI Generated: '' @ subject (json req) @ '' - '' @ topic (json req)) \<and>
         (description (json req) = None \<or> description (json req) = Some [] \<longrightarrow>
            row_description quizData =
              ''AI-generated quiz on '' @ topic (json req) @ '' ('' @
              complexity_name (complexity (json req)) @ '' level)'')"
    using q t d t' d' by blast
qed

theorem empty_title_is_omitted_title_witness:
  "InsertQuiz empty_title_row \<in>
     set (calls (serve Gemini
           (collaborators one_question_text one_question_text one_question True)
           empty_title_request empty_store)) \<and>
   InsertQuiz empty_title_row \<in>
     set (calls (serve OpenAI
           (collaborators one_question_text one_question_text one_question True)
           empty_title_request empty_store)) \<and>
   title (json empty_title_request) = Some [] \<and>
   description (json empty_title_request) = Some [] \<and>
   ins_title empty_title_row = ''AI Generated: Mathematics - Algebra'' \<and>
   ins_description empty_title_row = ''AI-generated quiz on Algebra (Easy level)'' \<and>
   req_method empty_title_request \<noteq> ''OPTIONS'' \<and>
   authorization empty_title_request = Some ''Bearer token-1'' \<and>
   auth_getUser (collaborators one_question_text one_question_text one_question True)
     (remove_first ''Bearer '' ''Bearer token-1'') = Some teacher \<and>
   teacher_found (collaborators one_question_text one_question_text one_question True)
     (user_id teacher) \<and>
   \<not> falsy_string (GEMINI_API_KEY
       (collaborators one_question_text one_question_text one_question True)) \<and>
   \<not> falsy_string (OPENAI_API_KEY
       (collaborators one_question_text one_question_text one_question True)) \<and>
   parsed_batch Gemini (collaborators one_question_text one_question_text one_question True)
     empty_title_request = Some [one_question_element] \<and>
   parsed_batch OpenAI (collaborators one_question_text one_question_text one_question True)
     empty_title_request = Some [one_question_element] \<and>
   list_all acceptable [one_question_element] \<and>
   InsertQuiz (quiz_to_insert
       (collaborators one_question_text one_question_text one_question True)
       teacher (json empty_title_request))
     \<in> set (calls (serve Gemini
           (collaborators one_question_text one_question_text one_question True)
           empty_title_request empty_store)) \<and>
   body (response (serve Gemini
     (collaborators one_question_text one_question_text one_question True)
     empty_title_request empty_store)) =
     Success \<lparr>quiz_id = 1, quiz_title = ''AI Generated: Mathematics - Algebra'',
              quiz_description = ''AI-generated quiz on Algebra (Easy level)'',
              roomCode = ''I'', questionsCount = 1\<rparr> [one_question_element] \<and>
   body (response (serve OpenAI
     (collaborators one_question_text one_question_text one_question True)
     empty_title_request empty_store)) =
     Success \<lparr>quiz_id = 1, quiz_title = ''AI Generated: Mathematics - Algebra'',
              quiz_description = ''AI-generated quiz on Algebra (Easy level)'',
              roomCode = ''I'', questionsCount = 1\<rparr> [one_question_element] \<and>
   map row_title (quizzes (final_store (serve Gemini
     (collaborators one_question_text one_question_text one_question True)
     empty_title_request empty_store))) = [''AI Generated: Mathematics - Algebra''] \<and>
   map row_description (quizzes (final_store (serve Gemini
     (collaborators one_question_text one_question_text one_question True)
     empty_title_request empty_store))) = [''AI-generated quiz on Algebra (Easy level)''] \<and>
   map row_title (quizzes (final_store (serve OpenAI
     (collaborators one_question_text one_question_text one_question True)
     empty_title_request empty_store))) = [''AI Generated: Mathematics - Algebra'']"
proof -
  let ?ev = "collaborators one_question_text one_question_text one_question True"
  let ?req = empty_title_request
  let ?summ = "\<lparr>quiz_id = 1, quiz_title = ''AI Generated: Mathematics - Algebra'',
              quiz_description = ''AI-generated quiz on Algebra (Easy level)'',
              roomCode = ''I'', questionsCount = 1\<rparr>"
  have ig: "InsertQuiz empty_title_row \<in> set (calls (serve Gemini ?ev ?req empty_store))"
    by code_simp
  have io: "InsertQuiz empty_title_row \<in> set (calls (serve OpenAI ?ev ?req empty_store))"
    by code_simp
  have t: "title (json ?req) = Some []"
    by (simp add: empty_title_request_def post_request_def)
  have d: "description (json ?req) = Some []"
    by (simp add: empty_title_request_def post_request_def)
  have s: "subject (json ?req) = ''Mathematics''" "topic (json ?req) = ''Algebra''"
    "complexity (json ?req) = Easy"
    by (simp_all add: empty_title_request_def post_request_def algebra_params_def)
  have it: "ins_title empty_title_row = ''AI Generated: Mathematics - Algebra''"
    using empty_title_is_omitted_title[where v = Gemini and ev = ?ev and req = ?req
        and st = empty_store and row = empty_title_row] ig t s
    by simp
  have id: "ins_description empty_title_row = ''AI-generated quiz on Algebra (Easy level)''"
    using empty_title_is_omitted_title[where v = OpenAI and ev = ?ev and req = ?req
        and st = empty_store and row = empty_title_row] io d s
    by simp
  have m: "req_method ?req \<noteq> ''OPTIONS''"
    by (simp add: empty_title_request_def post_request_def)
  have h: "authorization ?req = Some ''Bearer token-1''"
    by (simp add: empty_title_request_def post_request_def)
  have u: "auth_getUser ?ev (remove_first ''Bearer '' ''Bearer token-1'') = Some teacher"
    by code_simp
  have tf: "teacher_found ?ev (user_id teacher)" by code_simp
  have kg: "\<not> falsy_string (GEMINI_API_KEY ?ev)"
    by (simp add: collaborators_def falsy_string_def)
  have ko: "\<not> falsy_string (OPENAI_API_KEY ?ev)"
    by (simp add: collaborators_def falsy_string_def)
  have pg: "parsed_batch Gemini ?ev ?req = Some [one_question_element]" by code_simp
  have po: "parsed_batch OpenAI ?ev ?req = Some [one_question_element]" by code_simp
  have a: "list_all acceptable [one_question_element]"
    by (simp add: acceptable_def one_question_element_def)
  have call: "InsertQuiz (quiz_to_insert ?ev teacher (json ?req))
      \<in> set (calls (serve Gemini ?ev ?req empty_store))"
    using empty_title_is_omitted_title[where v = Gemini and ev = ?ev and req = ?req
        and st = empty_store and h = "''Bearer token-1''" and u = teacher
        and batch = "[one_question_element]"] m h u tf kg ko pg a
    by simp
  have bg: "body (response (serve Gemini ?ev ?req empty_store)) =
      Success ?summ [one_question_element]"
    by code_simp
  have bo: "body (response (serve OpenAI ?ev ?req empty_store)) =
      Success ?summ [one_question_element]"
    by code_simp
  have e: "quizzes empty_store = []" by (simp add: empty_store_def)
  have rg: "map row_title (quizzes (final_store (serve Gemini ?ev ?req empty_store))) =
        [''AI Generated: Mathematics - Algebra''] \<and>
      map row_description (quizzes (final_store (serve Gemini ?ev ?req empty_store))) =
        [''AI-generated quiz on Algebra (Easy level)'']"
  proof -
    from empty_title_is_omitted_title[where v = Gemini and ev = ?ev and req = ?req
        and st = empty_store and summ = ?summ and qs = "[one_question_element]",
        THEN conjunct2, THEN conjunct2, THEN conjunct2, THEN conjunct2, rule_format, OF bg]
    obtain quizData where
      q: "quizzes (final_store (serve Gemini ?ev ?req empty_store)) =
            quizzes empty_store @ [quizData]"
        "title (json ?req) = None \<or> title (json ?req) = Some [] \<longrightarrow>
           row_title quizData =
             ''AI Generated: '' @ subject (json ?req) @ '' - '' @ topic (json ?req)"
        "description (json ?req) = None \<or> description (json ?req) = Some [] \<longrightarrow>
           row_description quizData =
             ''AI-generated quiz on '' @ topic (json ?req) @ '' ('' @
             complexity_name (complexity (json ?req)) @ '' level)''"
      by blast
    show ?thesis using q t d s e by simp
  qed
  have ro: "map row_title (quizzes (final_store (serve OpenAI ?ev ?req empty_store))) =
        [''AI Generated: Mathematics - Algebra'']"
  proof -
    from empty_title_is_omitted_title[where v = OpenAI and ev = ?ev and req = ?req
        and st = empty_store and summ = ?summ and qs = "[one_question_element]",
        THEN conjunct2, THEN conjunct2, THEN conjunct2, THEN conjunct2, rule_format, OF bo]
    obtain quizData where
      q: "quizzes (final_store (serve OpenAI ?ev ?req empty_store)) =
            quizzes empty_store @ [quizData]"
        "title (json ?req) = None \<or> title (json ?req) = Some [] \<longrightarrow>
           row_title quizData =
             ''AI Generated: '' @ subject (json ?req) @ '' - '' @ topic (json ?req)"
      by blast
    show ?thesis using q t s e by simp
  qed
  show ?thesis
    using ig io t d it id m h u tf kg ko pg po a call bg bo rg ro by simp
qed

section \<open>Range checks (C4)\<close>

text \<open>
  C4 as stated fails. With \<open>numQuestions = 0\<close> or 21, or \<open>timePerQuestion = 0\<close> or \<open>- 5\<close>,
  both handlers call the identity provider and the \<open>teachers\<close> lookup first and, given a
  well-formed completion, answer 200; the quiz is stored with the time as received.
\<close>

theorem no_range_check_counterexample:
  "take 2 (calls (serve Gemini
     (collaborators one_question_text one_question_text one_question True)
     (post_request (Some ''Bearer token-1'') (algebra_params\<lparr>numQuestions := 0\<rparr>))
     empty_store)) = [AuthGetUser ''token-1'', TeacherLookup ''teacher-1''] \<and>
   status (response (serve Gemini
     (collaborators one_question_text one_question_text one_question True)
     (post_request (Some ''Bearer token-1'') (algebra_params\<lparr>numQuestions := 0\<rparr>))
     empty_store)) = 200 \<and>
   take 2 (calls (serve OpenAI
     (collaborators one_question_text one_question_text one_question True)
     (post_request (Some ''Bearer token-1'') (algebra_params\<lparr>numQuestions := 21\<rparr>))
     empty_store)) = [AuthGetUser ''token-1'', TeacherLookup ''teacher-1''] \<and>
   status (response (serve OpenAI
     (collaborators one_question_text one_question_text one_question True)
     (post_request (Some ''Bearer token-1'') (algebra_params\<lparr>numQuestions := 21\<rparr>))
     empty_store)) = 200 \<and>
   status (response (serve Gemini
     (collaborators one_question_text one_question_text one_question True)
     (post_request (Some ''Bearer token-1'') (algebra_params\<lparr>timePerQuestion := 0\<rparr>))
     empty_store)) = 200 \<and>
   map time_per_question (quizzes (final_store (serve Gemini
     (collaborators one_question_text one_question_text one_question True)
     (post_request (Some ''Bearer token-1'') (algebra_params\<lparr>timePerQuestion := 0\<rparr>))
     empty_store))) = [0] \<and>
   status (response (serve OpenAI
     (collaborators one_question_text one_question_text one_question True)
     (post_request (Some ''Bearer token-1'') (algebra_params\<lparr>timePerQuestion := - 5\<rparr>))
     empty_store)) = 200 \<and>
   map time_per_question (quizzes (final_store (serve OpenAI
     (collaborators one_question_text one_question_text one_question True)
     (post_request (Some ''Bearer token-1'') (algebra_params\<lparr>timePerQuestion := - 5\<rparr>))
     empty_store))) = [- 5]"
  by code_simp

lemma form_checks:
  "(numQuestions formData < 1 \<or> 20 < numQuestions formData \<longrightarrow>
      client_calls (handleSubmit cev formData) = [] \<and>
      navigated (handleSubmit cev formData) = None \<and>
      toast (handleSubmit cev formData) \<in>
        {ToastError ''Please fill in all required fields'',
         ToastError ''Number of questions must be between 1 and 20''}) \<and>
   (1 \<le> numQuestions formData \<and> numQuestions formData \<le> 20 \<and>
    trim (subject formData) \<noteq> [] \<and> trim (topic formData) \<noteq> [] \<longrightarrow>
      take 1 (client_calls (handleSubmit cev formData)) = [RefreshSession])"
  by (cases "functions_invoke cev formData")
     (auto simp: handleSubmit_def submit_caught_def Let_def)

lemma gemini_persist_calls_prefix:
  "\<exists>rest. calls (gemini_persist ev u p qs st cs) = cs @ rest"
  by (cases rule: gemini_persist_cases[of ev u p st qs cs]) simp_all

lemma openai_persist_calls_prefix:
  "\<exists>rest. calls (openai_persist ev u p qs st cs) = cs @ rest"
  by (cases rule: openai_persist_cases[of ev u p st qs cs]) simp_all

lemma gemini_generate_calls_prefix:
  "\<exists>rest. calls (gemini_generate ev u p st cs) = cs @ rest"
proof (cases rule: gemini_generate_cases[of ev u p st cs])
  case (fail f cs')
  then show ?thesis by auto
next
  case (persist data raw batch validated)
  obtain rest where "calls (gemini_persist ev u p validated st
      (cs @ [GeminiFetch (gemini_prompt p)])) = (cs @ [GeminiFetch (gemini_prompt p)]) @ rest"
    using gemini_persist_calls_prefix by blast
  then show ?thesis using persist(7) by simp
qed

lemma openai_generate_calls_prefix:
  "\<exists>rest. calls (openai_generate ev u p st cs) = cs @ rest"
proof (cases rule: openai_generate_cases[of ev u p st cs])
  case (fail f cs')
  then show ?thesis by auto
next
  case (persist data raw batch)
  obtain rest where "calls (openai_persist ev u p batch st
      (cs @ [OpenAIFetch (openai_prompt p)])) = (cs @ [OpenAIFetch (openai_prompt p)]) @ rest"
    using openai_persist_calls_prefix by blast
  then show ?thesis using persist(6) by simp
qed

lemma serve_calls_start:
  assumes "req_method req \<noteq> ''OPTIONS''" and "authorization req = Some h" and "h \<noteq> []"
  shows "\<exists>rest. calls (serve v ev req st) = AuthGetUser (remove_first ''Bearer '' h) # rest"
    and "auth_getUser ev (remove_first ''Bearer '' h) = Some u \<Longrightarrow>
         \<exists>rest. calls (serve v ev req st) =
           AuthGetUser (remove_first ''Bearer '' h) # TeacherLookup (user_id u) # rest"
proof -
  let ?token = "remove_first ''Bearer '' h"
  have two: "\<exists>rest. calls (serve v ev req st) = AuthGetUser ?token # TeacherLookup (user_id u) # rest"
    if u: "auth_getUser ev ?token = Some u" for u
  proof (cases "teacher_found ev (user_id u)")
    case False
    then show ?thesis using assms u
      by (cases v) (simp_all add: serve_gemini_def serve_openai_def)
  next
    case True
    let ?cs = "[AuthGetUser ?token, TeacherLookup (user_id u)]"
    show ?thesis
    proof (cases v)
      case Gemini
      obtain rest where "calls (gemini_generate ev u (json req) st ?cs) = ?cs @ rest"
        using gemini_generate_calls_prefix by blast
      then show ?thesis using assms u True Gemini by (simp add: serve_gemini_def)
    next
      case OpenAI
      obtain rest where "calls (openai_generate ev u (json req) st ?cs) = ?cs @ rest"
        using openai_generate_calls_prefix by blast
      then show ?thesis using assms u True OpenAI by (simp add: serve_openai_def)
    qed
  qed
  show "\<exists>rest. calls (serve v ev req st) = AuthGetUser ?token # rest"
  proof (cases "auth_getUser ev ?token")
    case None
    then show ?thesis using assms
      by (cases v) (simp_all add: serve_gemini_def serve_openai_def)
  next
    case (Some u)
    then show ?thesis using two by blast
  qed
  show "\<exists>rest. calls (serve v ev req st) =
      AuthGetUser ?token # TeacherLookup (user_id u) # rest"
    if "auth_getUser ev ?token = Some u"
    using that by (rule two)
qed

lemma gemini_persist_numbers:
  assumes "quiz_insert_ok ev (quiz_to_insert ev u (p\<lparr>numQuestions := n, timePerQuestion := t\<rparr>))
         = quiz_insert_ok ev (quiz_to_insert ev u p)"
  shows "response (gemini_persist ev u (p\<lparr>numQuestions := n, timePerQuestion := t\<rparr>) qs st cs')
       = response (gemini_persist ev u p qs st cs)"
proof (cases "quiz_insert_ok ev (quiz_to_insert ev u p)")
  case True
  then have "quiz_insert_ok ev (quiz_to_insert ev u (p\<lparr>numQuestions := n, timePerQuestion := t\<rparr>))"
    using assms by simp
  then show ?thesis using True
    by (simp add: gemini_persist_def quiz_to_insert_def insert_quiz_def insert_questions_def
        default_title_def default_description_def Let_def split: option.splits)
next
  case False
  then have "\<not> quiz_insert_ok ev (quiz_to_insert ev u (p\<lparr>numQuestions := n, timePerQuestion := t\<rparr>))"
    using assms by simp
  then show ?thesis using False
    by (simp add: gemini_persist_def quiz_to_insert_def insert_quiz_def insert_questions_def
        default_title_def default_description_def Let_def split: option.splits)
qed

lemma openai_persist_numbers:
  assumes "quiz_insert_ok ev (quiz_to_insert ev u (p\<lparr>numQuestions := n, timePerQuestion := t\<rparr>))
         = quiz_insert_ok ev (quiz_to_insert ev u p)"
  shows "response (openai_persist ev u (p\<lparr>numQuestions := n, timePerQuestion := t\<rparr>) qs st cs')
       = response (openai_persist ev u p qs st cs)"
proof (cases "quiz_insert_ok ev (quiz_to_insert ev u p)")
  case True
  then have "quiz_insert_ok ev (quiz_to_insert ev u (p\<lparr>numQuestions := n, timePerQuestion := t\<rparr>))"
    using assms by simp
  then show ?thesis using True
    by (simp add: openai_persist_def quiz_to_insert_def insert_quiz_def insert_questions_def
        default_title_def default_description_def Let_def split: option.splits)
next
  case False
  then have "\<not> quiz_insert_ok ev (quiz_to_insert ev u (p\<lparr>numQuestions := n, timePerQuestion := t\<rparr>))"
    using assms by simp
  then show ?thesis using False
    by (simp add: openai_persist_def quiz_to_insert_def insert_quiz_def insert_questions_def
        default_title_def default_description_def Let_def split: option.splits)
qed

lemma gemini_parse_numbers:
  assumes "quiz_insert_ok ev (quiz_to_insert ev u (p\<lparr>numQuestions := n, timePerQuestion := t\<rparr>))
         = quiz_insert_ok ev (quiz_to_insert ev u p)"
  shows "response (gemini_parse ev u (p\<lparr>numQuestions := n, timePerQuestion := t\<rparr>) raw st cs')
       = response (gemini_parse ev u p raw st cs)"
proof (cases "JSON_parse ev (clean_generated_text raw)")
  case None
  then show ?thesis by (simp add: gemini_parse_def)
next
  case (Some v)
  show ?thesis
  proof (cases "\<exists>batch. v = JArr batch \<and> batch \<noteq> []")
    case False
    then show ?thesis using Some by (cases v) (auto simp: gemini_parse_def)
  next
    case True
    then obtain batch where b: "v = JArr batch" "batch \<noteq> []" by blast
    show ?thesis
    proof (cases "validate_questions 0 batch")
      case (Inl f)
      then show ?thesis using Some b by (simp add: gemini_parse_def)
    next
      case (Inr validated)
      then show ?thesis using Some b gemini_persist_numbers[OF assms]
        by (simp add: gemini_parse_def)
    qed
  qed
qed

lemma openai_parse_numbers:
  assumes "quiz_insert_ok ev (quiz_to_insert ev u (p\<lparr>numQuestions := n, timePerQuestion := t\<rparr>))
         = quiz_insert_ok ev (quiz_to_insert ev u p)"
  shows "response (openai_parse ev u (p\<lparr>numQuestions := n, timePerQuestion := t\<rparr>) raw st cs')
       = response (openai_parse ev u p raw st cs)"
proof (cases "JSON_parse ev raw")
  case None
  then show ?thesis by (simp add: openai_parse_def)
next
  case (Some v)
  show ?thesis
  proof (cases "\<exists>batch. v = JArr batch \<and> batch \<noteq> []")
    case False
    then show ?thesis using Some by (cases v) (auto simp: openai_parse_def)
  next
    case True
    then obtain batch where b: "v = JArr batch" "batch \<noteq> []" by blast
    then show ?thesis using Some openai_persist_numbers[OF assms]
      by (simp add: openai_parse_def)
  qed
qed

lemma gemini_generate_numbers:
  assumes "gemini_fetch ev (gemini_prompt (p\<lparr>numQuestions := n, timePerQuestion := t\<rparr>))
         = gemini_fetch ev (gemini_prompt p)"
    and "quiz_insert_ok ev (quiz_to_insert ev u (p\<lparr>numQuestions := n, timePerQuestion := t\<rparr>))
         = quiz_insert_ok ev (quiz_to_insert ev u p)"
  shows "response (gemini_generate ev u (p\<lparr>numQuestions := n, timePerQuestion := t\<rparr>) st cs)
       = response (gemini_generate ev u p st cs)"
proof (cases "falsy_string (GEMINI_API_KEY ev)")
  case True
  then show ?thesis by (simp add: gemini_generate_def)
next
  case key: False
  show ?thesis
  proof (cases "gemini_fetch ev (gemini_prompt p)")
    case (HttpJson data)
    show ?thesis
    proof (cases "gemini_text data")
      case (Inl f)
      then show ?thesis using key HttpJson assms(1) by (simp add: gemini_generate_def)
    next
      case (Inr raw)
      then show ?thesis using key HttpJson assms(1) gemini_parse_numbers[OF assms(2)]
        by (simp add: gemini_generate_def)
    qed
  qed (use key assms(1) in \<open>simp_all add: gemini_generate_def\<close>)
qed

lemma openai_generate_numbers:
  assumes "openai_fetch ev (openai_prompt (p\<lparr>numQuestions := n, timePerQuestion := t\<rparr>))
         = openai_fetch ev (openai_prompt p)"
    and "quiz_insert_ok ev (quiz_to_insert ev u (p\<lparr>numQuestions := n, timePerQuestion := t\<rparr>))
         = quiz_insert_ok ev (quiz_to_insert ev u p)"
  shows "response (openai_generate ev u (p\<lparr>numQuestions := n, timePerQuestion := t\<rparr>) st cs)
       = response (openai_generate ev u p st cs)"
proof (cases "falsy_string (OPENAI_API_KEY ev)")
  case True
  then show ?thesis by (simp add: openai_generate_def)
next
  case key: False
  show ?thesis
  proof (cases "openai_fetch ev (openai_prompt p)")
    case (HttpJson data)
    show ?thesis
    proof (cases "openai_text data")
      case (Inl f)
      then show ?thesis using key HttpJson assms(1) by (simp add: openai_generate_def)
    next
      case (Inr raw)
      then show ?thesis using key HttpJson assms(1) openai_parse_numbers[OF assms(2)]
        by (simp add: openai_generate_def)
    qed
  qed (use key assms(1) in \<open>simp_all add: openai_generate_def\<close>)
qed

lemma serve_numbers:
  assumes "gemini_fetch ev (gemini_prompt (p\<lparr>numQuestions := n, timePerQuestion := t\<rparr>))
         = gemini_fetch ev (gemini_prompt p)"
    and "openai_fetch ev (openai_prompt (p\<lparr>numQuestions := n, timePerQuestion := t\<rparr>))
         = openai_fetch ev (openai_prompt p)"
    and "\<forall>x. quiz_insert_ok ev (quiz_to_insert ev x (p\<lparr>numQuestions := n, timePerQuestion := t\<rparr>))
         = quiz_insert_ok ev (quiz_to_insert ev x p)"
  shows "response (serve v ev (req\<lparr>json := p\<lparr>numQuestions := n, timePerQuestion := t\<rparr>\<rparr>) st)
       = response (serve v ev (req\<lparr>json := p\<rparr>) st)"
proof (cases "req_method req = ''OPTIONS''")
  case True
  then show ?thesis by (cases v) (simp_all add: serve_gemini_def serve_openai_def)
next
  case post: False
  show ?thesis
  proof (cases "\<exists>h. authorization req = Some h \<and> h \<noteq> []")
    case False
    then show ?thesis using post
      by (cases v; cases "authorization req") (auto simp: serve_gemini_def serve_openai_def)
  next
    case True
    then obtain h where h: "authorization req = Some h" "h \<noteq> []" by blast
    show ?thesis
    proof (cases "auth_getUser ev (remove_first ''Bearer '' h)")
      case None
      then show ?thesis using post h
        by (cases v) (simp_all add: serve_gemini_def serve_openai_def)
    next
      case (Some u)
      show ?thesis
      proof (cases "teacher_found ev (user_id u)")
        case False
        then show ?thesis using post h Some
          by (cases v) (simp_all add: serve_gemini_def serve_openai_def)
      next
        case True
        have q: "quiz_insert_ok ev (quiz_to_insert ev u (p\<lparr>numQuestions := n, timePerQuestion := t\<rparr>))
            = quiz_insert_ok ev (quiz_to_insert ev u p)"
          using assms(3) by blast
        show ?thesis
        proof (cases v)
          case Gemini
          then show ?thesis
            using post h Some True gemini_generate_numbers[OF assms(1) q]
            by (simp add: serve_gemini_def)
        next
          case OpenAI
          then show ?thesis
            using post h Some True openai_generate_numbers[OF assms(2) q]
            by (simp add: serve_openai_def)
        qed
      qed
    qed
  qed
qed

text \<open>
  C4, amended. The page's \<open>handleSubmit\<close> turns a form away whose \<open>numQuestions\<close> is below
  1 or above 20: an error toast, no navigation and no network call. A form with
  \<open>numQuestions\<close> from 1 to 20 (1 and 20 included) and a subject and a topic that are not
  blank passes the check, and the submission starts with the refresh of the session. The
  handlers check neither number. Whatever the parameters are, a handler, given a request
  with the header, calls the identity provider first and, for a principal it knows, the
  \<open>teachers\<close> lookup next. Its response is the same for any two values of \<open>numQuestions\<close>
  and \<open>timePerQuestion\<close> for which the backend gives the same reply and the store accepts
  the quiz row alike; and the row it inserts carries \<open>timePerQuestion\<close> as received.
\<close>

theorem range_check_is_in_the_form_only:
  "(numQuestions formData < 1 \<or> 20 < numQuestions formData \<longrightarrow>
      client_calls (handleSubmit cev formData) = [] \<and>
      navigated (handleSubmit cev formData) = None \<and>
      toast (handleSubmit cev formData) \<in>
        {ToastError ''Please fill in all required fields'',
         ToastError ''Number of questions must be between 1 and 20''}) \<and>
   (1 \<le> numQuestions formData \<and> numQuestions formData \<le> 20 \<and>
    trim (subject formData) \<noteq> [] \<and> trim (topic formData) \<noteq> [] \<longrightarrow>
      take 1 (client_calls (handleSubmit cev formData)) = [RefreshSession]) \<and>
   (req_method req \<noteq> ''OPTIONS'' \<and> authorization req = Some h \<and> h \<noteq> [] \<longrightarrow>
      (\<exists>rest. calls (serve v ev req st) =
         AuthGetUser (remove_first ''Bearer '' h) # rest)) \<and>
   (req_method req \<noteq> ''OPTIONS'' \<and> authorization req = Some h \<and> h \<noteq> [] \<and>
    auth_getUser ev (remove_first ''Bearer '' h) = Some u \<longrightarrow>
      (\<exists>rest. calls (serve v ev req st) =
         AuthGetUser (remove_first ''Bearer '' h) # TeacherLookup (user_id u) # rest)) \<and>
   (gemini_fetch ev (gemini_prompt (p\<lparr>numQuestions := n, timePerQuestion := t\<rparr>))
      = gemini_fetch ev (gemini_prompt p) \<and>
    openai_fetch ev (openai_prompt (p\<lparr>numQuestions := n, timePerQuestion := t\<rparr>))
      = openai_fetch ev (openai_prompt p) \<and>
    (\<forall>x. quiz_insert_ok ev (quiz_to_insert ev x (p\<lparr>numQuestions := n, timePerQuestion := t\<rparr>))
      = quiz_insert_ok ev (quiz_to_insert ev x p)) \<longrightarrow>
      response (serve v ev (req\<lparr>json := p\<lparr>numQuestions := n, timePerQuestion := t\<rparr>\<rparr>) st)
        = response (serve v ev (req\<lparr>json := p\<rparr>) st)) \<and>
   (InsertQuiz row \<in> set (calls (serve v ev req st)) \<longrightarrow>
      ins_time_per_question row = timePerQuestion (json req))"
proof (intro conjI)
  show "numQuestions formData < 1 \<or> 20 < numQuestions formData \<longrightarrow>
      client_calls (handleSubmit cev formData) = [] \<and>
      navigated (handleSubmit cev formData) = None \<and>
      toast (handleSubmit cev formData) \<in>
        {ToastError ''Please fill in all required fields'',
         ToastError ''Number of questions must be between 1 and 20''}"
    using form_checks[of formData cev] by blast
  show "1 \<le> numQuestions formData \<and> numQuestions formData \<le> 20 \<and>
    trim (subject formData) \<noteq> [] \<and> trim (topic formData) \<noteq> [] \<longrightarrow>
      take 1 (client_calls (handleSubmit cev formData)) = [RefreshSession]"
    using form_checks[of formData cev] by blast
  show "req_method req \<noteq> ''OPTIONS'' \<and> authorization req = Some h \<and> h \<noteq> [] \<longrightarrow>
      (\<exists>rest. calls (serve v ev req st) =
         AuthGetUser (remove_first ''Bearer '' h) # rest)"
    using serve_calls_start(1)[of req h v ev st] by blast
  show "req_method req \<noteq> ''OPTIONS'' \<and> authorization req = Some h \<and> h \<noteq> [] \<and>
    auth_getUser ev (remove_first ''Bearer '' h) = Some u \<longrightarrow>
      (\<exists>rest. calls (serve v ev req st) =
         AuthGetUser (remove_first ''Bearer '' h) # TeacherLookup (user_id u) # rest)"
    using serve_calls_start(2)[of req h ev u v st] by blast
  show "gemini_fetch ev (gemini_prompt (p\<lparr>numQuestions := n, timePerQuestion := t\<rparr>))
      = gemini_fetch ev (gemini_prompt p) \<and>
    openai_fetch ev (openai_prompt (p\<lparr>numQuestions := n, timePerQuestion := t\<rparr>))
      = openai_fetch ev (openai_prompt p) \<and>
    (\<forall>x. quiz_insert_ok ev (quiz_to_insert ev x (p\<lparr>numQuestions := n, timePerQuestion := t\<rparr>))
      = quiz_insert_ok ev (quiz_to_insert ev x p)) \<longrightarrow>
      response (serve v ev (req\<lparr>json := p\<lparr>numQuestions := n, timePerQuestion := t\<rparr>\<rparr>) st)
        = response (serve v ev (req\<lparr>json := p\<rparr>) st)"
    using serve_numbers[where ev = ev and p = p and n = n and t = t and v = v and req = req
        and st = st] by blast
  show "InsertQuiz row \<in> set (calls (serve v ev req st)) \<longrightarrow>
      ins_time_per_question row = timePerQuestion (json req)"
  proof
    assume "InsertQuiz row \<in> set (calls (serve v ev req st))"
    then obtain x where "row = quiz_to_insert ev x (json req)"
      using serve_inserted by blast
    then show "ins_time_per_question row = timePerQuestion (json req)"
      by (simp add: quiz_to_insert_def)
  qed
qed

theorem range_check_is_in_the_form_only_witness:
  "numQuestions (algebra_params\<lparr>numQuestions := 0\<rparr>) < 1 \<and>
   client_calls (handleSubmit page_collaborators (algebra_params\<lparr>numQuestions := 0\<rparr>)) = [] \<and>
   20 < numQuestions (algebra_params\<lparr>numQuestions := 21\<rparr>) \<and>
   client_calls (handleSubmit page_collaborators (algebra_params\<lparr>numQuestions := 21\<rparr>)) = [] \<and>
   trim (subject algebra_params) \<noteq> [] \<and> trim (topic algebra_params) \<noteq> [] \<and>
   take 1 (client_calls (handleSubmit page_collaborators (algebra_params\<lparr>numQuestions := 1\<rparr>)))
     = [RefreshSession] \<and>
   take 1 (client_calls (handleSubmit page_collaborators (algebra_params\<lparr>numQuestions := 20\<rparr>)))
     = [RefreshSession] \<and>
   req_method out_of_range_request \<noteq> ''OPTIONS'' \<and>
   authorization out_of_range_request = Some ''Bearer token-1'' \<and>
   auth_getUser (collaborators one_question_text one_question_text one_question True)
     (remove_first ''Bearer '' ''Bearer token-1'') = Some teacher \<and>
   (\<exists>rest. calls (serve Gemini
       (collaborators one_question_text one_question_text one_question True)
       out_of_range_request empty_store) =
     AuthGetUser ''token-1'' # TeacherLookup ''teacher-1'' # rest) \<and>
   (\<exists>rest. calls (serve OpenAI
       (collaborators one_question_text one_question_text one_question True)
       out_of_range_request empty_store) =
     AuthGetUser ''token-1'' # rest) \<and>
   gemini_fetch (collaborators one_question_text one_question_text one_question True)
       (gemini_prompt (algebra_params\<lparr>numQuestions := 0, timePerQuestion := 0\<rparr>))
     = gemini_fetch (collaborators one_question_text one_question_text one_question True)
       (gemini_prompt algebra_params) \<and>
   openai_fetch (collaborators one_question_text one_question_text one_question True)
       (openai_prompt (algebra_params\<lparr>numQuestions := 0, timePerQuestion := 0\<rparr>))
     = openai_fetch (collaborators one_question_text one_question_text one_question True)
       (openai_prompt algebra_params) \<and>
   (\<forall>x. quiz_insert_ok (collaborators one_question_text one_question_text one_question True)
       (quiz_to_insert (collaborators one_question_text one_question_text one_question True) x
          (algebra_params\<lparr>numQuestions := 0, timePerQuestion := 0\<rparr>))
     = quiz_insert_ok (collaborators one_question_text one_question_text one_question True)
       (quiz_to_insert (collaborators one_question_text one_question_text one_question True) x
          algebra_params)) \<and>
   status (response (serve Gemini
     (collaborators one_question_text one_question_text one_question True)
     out_of_range_request empty_store)) = 200 \<and>
   status (response (serve OpenAI
     (collaborators one_question_text one_question_text one_question True)
     out_of_range_request empty_store)) = 200 \<and>
   InsertQuiz out_of_range_row \<in> set (calls (serve Gemini
     (collaborators one_question_text one_question_text one_question True)
     out_of_range_request empty_store)) \<and>
   ins_time_per_question out_of_range_row = 0"
proof -
  let ?ev = "collaborators one_question_text one_question_text one_question True"
  let ?p = "algebra_params\<lparr>numQuestions := 0, timePerQuestion := 0\<rparr>"
  have s: "trim (subject algebra_params) \<noteq> []" by code_simp
  have t: "trim (topic algebra_params) \<noteq> []" by code_simp
  have s': "trim (subject (algebra_params\<lparr>numQuestions := n\<rparr>)) \<noteq> []" for n
    using s by simp
  have t': "trim (topic (algebra_params\<lparr>numQuestions := n\<rparr>)) \<noteq> []" for n
    using t by simp
  have 0: "client_calls (handleSubmit page_collaborators (algebra_params\<lparr>numQuestions := 0\<rparr>)) = []"
    using range_check_is_in_the_form_only[where cev = page_collaborators
        and formData = "algebra_params\<lparr>numQuestions := 0\<rparr>", THEN conjunct1]
    by simp
  have 21: "client_calls (handleSubmit page_collaborators (algebra_params\<lparr>numQuestions := 21\<rparr>)) = []"
    using range_check_is_in_the_form_only[where cev = page_collaborators
        and formData = "algebra_params\<lparr>numQuestions := 21\<rparr>", THEN conjunct1]
    by simp
  have 1: "take 1 (client_calls (handleSubmit page_collaborators (algebra_params\<lparr>numQuestions := 1\<rparr>)))
     = [RefreshSession]"
    using range_check_is_in_the_form_only[where cev = page_collaborators
        and formData = "algebra_params\<lparr>numQuestions := 1\<rparr>",
        THEN conjunct2, THEN conjunct1] s'[of 1] t'[of 1]
    by simp
  have 20: "take 1 (client_calls (handleSubmit page_collaborators (algebra_params\<lparr>numQuestions := 20\<rparr>)))
     = [RefreshSession]"
    using range_check_is_in_the_form_only[where cev = page_collaborators
        and formData = "algebra_params\<lparr>numQuestions := 20\<rparr>",
        THEN conjunct2, THEN conjunct1] s'[of 20] t'[of 20]
    by simp
  have m: "req_method out_of_range_request \<noteq> ''OPTIONS''"
    by (simp add: out_of_range_request_def post_request_def)
  have h: "authorization out_of_range_request = Some ''Bearer token-1''"
    by (simp add: out_of_range_request_def post_request_def)
  have ne: "''Bearer token-1'' \<noteq> []" by simp
  have tok: "remove_first ''Bearer '' ''Bearer token-1'' = ''token-1''" by code_simp
  have u: "auth_getUser ?ev (remove_first ''Bearer '' ''Bearer token-1'') = Some teacher"
    by code_simp
  have uid: "user_id teacher = ''teacher-1''" by (simp add: teacher_def)
  have c2: "\<exists>rest. calls (serve Gemini ?ev out_of_range_request empty_store) =
      AuthGetUser ''token-1'' # TeacherLookup ''teacher-1'' # rest"
    using range_check_is_in_the_form_only[where v = Gemini and ev = ?ev
        and req = out_of_range_request and st = empty_store and h = "''Bearer token-1''"
        and u = teacher, THEN conjunct2, THEN conjunct2, THEN conjunct2, THEN conjunct1]
      m h ne u tok uid
    by simp
  have c1: "\<exists>rest. calls (serve OpenAI ?ev out_of_range_request empty_store) =
      AuthGetUser ''token-1'' # rest"
    using range_check_is_in_the_form_only[where v = OpenAI and ev = ?ev
        and req = out_of_range_request and st = empty_store and h = "''Bearer token-1''",
        THEN conjunct2, THEN conjunct2, THEN conjunct1]
      m h ne tok
    by simp
  have fg: "gemini_fetch ?ev (gemini_prompt ?p) = gemini_fetch ?ev (gemini_prompt algebra_params)"
    by (simp add: collaborators_def)
  have fo: "openai_fetch ?ev (openai_prompt ?p) = openai_fetch ?ev (openai_prompt algebra_params)"
    by (simp add: collaborators_def)
  have q: "\<forall>x. quiz_insert_ok ?ev (quiz_to_insert ?ev x ?p)
      = quiz_insert_ok ?ev (quiz_to_insert ?ev x algebra_params)"
    by (simp add: collaborators_def)
  have r: "out_of_range_request = teacher_request\<lparr>json := ?p\<rparr>"
    "teacher_request = teacher_request\<lparr>json := algebra_params\<rparr>"
    by (simp_all add: out_of_range_request_def teacher_request_def post_request_def)
  have bg: "status (response (serve Gemini ?ev teacher_request empty_store)) = 200"
    by code_simp
  have bo: "status (response (serve OpenAI ?ev teacher_request empty_store)) = 200"
    by code_simp
  have "response (serve Gemini ?ev (teacher_request\<lparr>json := ?p\<rparr>) empty_store) =
      response (serve Gemini ?ev (teacher_request\<lparr>json := algebra_params\<rparr>) empty_store)"
    using range_check_is_in_the_form_only[where v = Gemini and ev = ?ev
        and req = teacher_request and st = empty_store and p = algebra_params
        and n = 0 and t = 0,
        THEN conjunct2, THEN conjunct2, THEN conjunct2, THEN conjunct2, THEN conjunct1]
      fg fo q
    by blast
  then have sg: "status (response (serve Gemini ?ev out_of_range_request empty_store)) = 200"
    using r bg by simp
  have "response (serve OpenAI ?ev (teacher_request\<lparr>json := ?p\<rparr>) empty_store) =
      response (serve OpenAI ?ev (teacher_request\<lparr>json := algebra_params\<rparr>) empty_store)"
    using range_check_is_in_the_form_only[where v = OpenAI and ev = ?ev
        and req = teacher_request and st = empty_store and p = algebra_params
        and n = 0 and t = 0,
        THEN conjunct2, THEN conjunct2, THEN conjunct2, THEN conjunct2, THEN conjunct1]
      fg fo q
    by blast
  then have so: "status (response (serve OpenAI ?ev out_of_range_request empty_store)) = 200"
    using r bo by simp
  have i: "InsertQuiz out_of_range_row \<in>
      set (calls (serve Gemini ?ev out_of_range_request empty_store))"
    by code_simp
  have tp: "timePerQuestion (json out_of_range_request) = 0"
    by (simp add: out_of_range_request_def post_request_def)
  have it: "ins_time_per_question out_of_range_row = 0"
    using range_check_is_in_the_form_only[where v = Gemini and ev = ?ev
        and req = out_of_range_request and st = empty_store and row = out_of_range_row,
        THEN conjunct2, THEN conjunct2, THEN conjunct2, THEN conjunct2, THEN conjunct2]
      i tp
    by simp
  show ?thesis
    using s t 0 21 1 20 m h u c2 c1 fg fo q sg so i it by simp
qed

section \<open>The two handlers side by side (C6)\<close>






section \<open>The clean-up of the Gemini-backed handler leaves no fence\<close>

lemma remove_all_Nil [simp]: "remove_all pat [] = []"
  by (simp add: remove_all.simps)

lemma remove_all_skip:
  "pat \<noteq> [] \<Longrightarrow> \<not> starts_with pat (c # cs) \<Longrightarrow>
     remove_all pat (c # cs) = c # remove_all pat cs"
  by (subst remove_all.simps) simp

lemma remove_all_match:
  "pat \<noteq> [] \<Longrightarrow> starts_with pat (c # cs) \<Longrightarrow>
     remove_all pat (c # cs) = remove_all pat (drop_newline (drop (length pat) (c # cs)))"
  by (subst remove_all.simps) simp

lemma starts_with_append: "starts_with pat s \<longleftrightarrow> (\<exists>b. s = pat @ b)"
proof
  assume "starts_with pat s"
  then have "s = pat @ drop (length pat) s"
    by (metis append_take_drop_id starts_with_def)
  then show "\<exists>b. s = pat @ b" by blast
next
  assume "\<exists>b. s = pat @ b"
  then show "starts_with pat s" by (auto simp: starts_with_def)
qed

lemma starts_with_fence:
  "starts_with ''```'' s \<longleftrightarrow> (\<exists>t. s = ''```'' @ t)"
  by (rule starts_with_append)

lemma remove_all_fence_head:
  assumes "\<not> starts_with ''```'' s"
  shows "\<not> starts_with ''```'' (remove_all ''```'' s)"
proof (cases s)
  case Nil
  then show ?thesis by (simp add: starts_with_def)
next
  case s: (Cons c1 s1)
  have r1: "remove_all ''```'' s = c1 # remove_all ''```'' s1"
    using assms s by (simp add: remove_all_skip)
  show ?thesis
  proof (cases "c1 = CHR 0x60")
    case False
    then show ?thesis using r1 by (auto simp: starts_with_fence)
  next
    case c1: True
    show ?thesis
    proof (cases s1)
      case Nil
      then show ?thesis using r1 by (simp add: starts_with_def)
    next
      case s1: (Cons c2 s2)
      have n1: "\<not> starts_with ''```'' s1"
        using assms s c1 by (auto simp: starts_with_fence)
      have r2: "remove_all ''```'' s1 = c2 # remove_all ''```'' s2"
        using n1 s1 by (simp add: remove_all_skip)
      show ?thesis
      proof (cases "c2 = CHR 0x60")
        case False
        then show ?thesis using r1 r2 by (auto simp: starts_with_fence)
      next
        case c2: True
        show ?thesis
        proof (cases s2)
          case Nil
          then show ?thesis using r1 r2 by (simp add: starts_with_def)
        next
          case s2: (Cons c3 s3)
          have c3: "c3 \<noteq> CHR 0x60"
            using assms s s1 s2 c1 c2 by (auto simp: starts_with_fence)
          then have "\<not> starts_with ''```'' s2"
            using s2 by (auto simp: starts_with_fence)
          then have "remove_all ''```'' s2 = c3 # remove_all ''```'' s3"
            using s2 by (simp add: remove_all_skip)
          then show ?thesis using r1 r2 c3 by (auto simp: starts_with_fence)
        qed
      qed
    qed
  qed
qed

lemma remove_all_fence_free:
  "pat = ''```'' \<longrightarrow> \<not> includes_str pat (remove_all pat s)"
proof (induction pat s rule: remove_all.induct)
  case (1 pat s)
  show ?case
  proof (intro impI)
    assume pat: "pat = ''```''"
    show "\<not> includes_str pat (remove_all pat s)"
    proof (cases s)
      case Nil
      then show ?thesis using pat by simp
    next
      case (Cons c cs)
      then have ne: "\<not> (s = [] \<or> pat = [])" using pat by simp
      show ?thesis
      proof (cases "starts_with pat s")
        case True
        then show ?thesis
          using "1.IH"(1)[OF ne True] pat Cons by (simp add: remove_all_match)
      next
        case False
        have ih: "\<not> includes_str pat (remove_all pat cs)"
          using "1.IH"(2)[OF ne False] pat Cons by simp
        have r: "remove_all pat s = c # remove_all pat cs"
          using False Cons pat by (simp add: remove_all_skip)
        have "\<not> starts_with pat (remove_all pat s)"
          using remove_all_fence_head False pat by simp
        then show ?thesis using ih r by simp
      qed
    qed
  qed
qed

lemma includes_str_append: "includes_str pat s \<longleftrightarrow> (\<exists>a b. s = a @ pat @ b)"
proof (induction s)
  case Nil
  then show ?case by auto
next
  case (Cons c cs)
  show ?case
  proof
    assume "includes_str pat (c # cs)"
    then consider "starts_with pat (c # cs)" | "includes_str pat cs" by auto
    then show "\<exists>a b. c # cs = a @ pat @ b"
    proof cases
      case 1
      then obtain b where "c # cs = pat @ b" using starts_with_append by blast
      then have "c # cs = [] @ pat @ b" by simp
      then show ?thesis by blast
    next
      case 2
      then obtain a b where "cs = a @ pat @ b" using Cons.IH by blast
      then have "c # cs = (c # a) @ pat @ b" by simp
      then show ?thesis by blast
    qed
  next
    assume "\<exists>a b. c # cs = a @ pat @ b"
    then obtain a b where ab: "c # cs = a @ pat @ b" by blast
    show "includes_str pat (c # cs)"
    proof (cases a)
      case Nil
      then have "starts_with pat (c # cs)" using ab starts_with_append by auto
      then show ?thesis by simp
    next
      case (Cons x a')
      then have "cs = a' @ pat @ b" using ab by simp
      then have "includes_str pat cs" using Cons.IH by blast
      then show ?thesis by simp
    qed
  qed
qed

lemma trim_infix: "\<exists>a b. s = a @ trim s @ b"
proof -
  let ?t = "dropWhile is_space s"
  have 1: "s = takeWhile is_space s @ ?t" by simp
  have "rev ?t = takeWhile is_space (rev ?t) @ dropWhile is_space (rev ?t)" by simp
  then have "?t = rev (dropWhile is_space (rev ?t)) @ rev (takeWhile is_space (rev ?t))"
    by (metis rev_append rev_rev_ident)
  then have "?t = trim s @ rev (takeWhile is_space (rev ?t))" by (simp add: trim_def)
  with 1 have "s = takeWhile is_space s @ trim s @ rev (takeWhile is_space (rev ?t))"
    by simp
  then show ?thesis by blast
qed

lemma includes_str_trim:
  assumes "includes_str pat (trim s)"
  shows "includes_str pat s"
proof -
  from assms obtain a b where "trim s = a @ pat @ b" using includes_str_append by blast
  moreover obtain a' b' where "s = a' @ trim s @ b'" using trim_infix by blast
  ultimately have "s = (a' @ a) @ pat @ (b @ b')" by simp
  then show ?thesis using includes_str_append by blast
qed

lemma gemini_clean_up_leaves_no_fence:
  "\<not> includes_str ''```'' (clean_generated_text generatedText)"
  using remove_all_fence_free[of "''```''" "remove_all ''```json'' generatedText"]
    includes_str_trim[of "''```''" "remove_all ''```'' (remove_all ''```json'' generatedText)"]
  by (auto simp: clean_generated_text_def)

section \<open>What does hold of a room code\<close>

lemma to_upper_digit36:
  assumes "d < 36"
  shows "is_upper_alnum (to_upper (digit36 d))"
proof (cases "d < 10")
  case True
  then show ?thesis by (simp add: digit36_def to_upper_def is_upper_alnum_def)
next
  case False
  then have "97 \<le> 87 + d" "87 + d \<le> 122" using assms by simp_all
  then show ?thesis using False
    by (simp add: digit36_def to_upper_def is_upper_alnum_def)
qed

lemma frac_digits36_digits:
  assumes "m < 2 ^ e"
  shows "list_all (\<lambda>c. \<exists>d<36. c = digit36 d) (frac_digits36 k m e)"
  using assms
proof (induction k arbitrary: m)
  case 0
  then show ?case by simp
next
  case (Suc k)
  have "36 * m < 36 * 2 ^ e" using Suc.prems by simp
  then have d: "36 * m div 2 ^ e < 36"
    by (simp add: less_mult_imp_div_less mult.commute)
  have "36 * m mod 2 ^ e < 2 ^ e" by simp
  from Suc.IH[OF this] d show ?case by auto
qed

lemma substring_2_8:
  "length (substring 2 8 s) \<le> 6" "set (substring 2 8 (''0.'' @ ds)) \<subseteq> set ds"
  "substring 2 8 ''0'' = []"
proof -
  show "length (substring 2 8 s) \<le> 6" by (simp add: substring_def Let_def)
  show "set (substring 2 8 (''0.'' @ ds)) \<subseteq> set ds"
    by (auto simp: substring_def Let_def min_def dest: in_set_takeD)
  show "substring 2 8 ''0'' = []" by (simp add: substring_def)
qed

text \<open>
  Whatever numeral \<open>0.\<close>\<open>ds\<close> of base-36 digits \<open>toString(36)\<close> prints, the exact expansion
  or a shorter one, the room code made of it has at most six characters, all of them
  digits or capital letters.
\<close>

lemma room_code_of_any_numeral:
  assumes "list_all (\<lambda>c. \<exists>d<36. c = digit36 d) ds"
  shows "length (toUpperCase (substring 2 8 (''0.'' @ ds))) \<le> 6 \<and>
         list_all is_upper_alnum (toUpperCase (substring 2 8 (''0.'' @ ds)))"
proof -
  have len: "length (toUpperCase (substring 2 8 (''0.'' @ ds))) \<le> 6"
    by (simp add: toUpperCase_def substring_2_8(1))
  have "set (substring 2 8 (''0.'' @ ds)) \<subseteq> set ds" by (rule substring_2_8(2))
  moreover have "\<forall>c\<in>set ds. \<exists>d<36. c = digit36 d"
    using assms by (simp add: list_all_iff)
  ultimately have digits: "\<exists>d<36. c = digit36 d"
    if "c \<in> set (substring 2 8 (''0.'' @ ds))" for c
    using that by (meson subsetD)
  have "is_upper_alnum (to_upper c)" if "c \<in> set (substring 2 8 (''0.'' @ ds))" for c
  proof -
    from digits[OF that] obtain d where "d < 36" "c = digit36 d" by blast
    then show ?thesis by (simp add: to_upper_digit36)
  qed
  then have "\<forall>c\<in>set (substring 2 8 (''0.'' @ ds)). is_upper_alnum (to_upper c)"
    by simp
  then have "list_all is_upper_alnum (toUpperCase (substring 2 8 (''0.'' @ ds)))"
    by (simp add: toUpperCase_def list_all_iff)
  with len show ?thesis by simp
qed

lemma room_code_at_most_six_upper_alnum:
  assumes "m < 2 ^ e"
  shows "length (generate_room_code (m, e)) \<le> 6 \<and>
         list_all is_upper_alnum (generate_room_code (m, e))"
proof -
  have len: "length (generate_room_code (m, e)) \<le> 6"
    by (simp add: generate_room_code_def toUpperCase_def substring_2_8(1))
  have "list_all is_upper_alnum (generate_room_code (m, e))"
  proof (cases "m = 0")
    case True
    then show ?thesis
      by (simp add: generate_room_code_def toString36_def toUpperCase_def substring_2_8(3))
  next
    case False
    let ?ds = "frac_digits36 e m e"
    have "set (substring 2 8 (''0.'' @ ?ds)) \<subseteq> set ?ds" by (rule substring_2_8(2))
    moreover have "\<forall>c\<in>set ?ds. \<exists>d<36. c = digit36 d"
      using frac_digits36_digits[OF assms, of e] by (simp add: list_all_iff)
    ultimately have digits: "\<exists>d<36. c = digit36 d"
      if "c \<in> set (substring 2 8 (''0.'' @ ?ds))" for c
      using that by (meson subsetD)
    have "is_upper_alnum (to_upper c)" if "c \<in> set (substring 2 8 (''0.'' @ ?ds))" for c
    proof -
      from digits[OF that] obtain d where "d < 36" "c = digit36 d" by blast
      then show ?thesis by (simp add: to_upper_digit36)
    qed
    then have "\<forall>c\<in>set (substring 2 8 (''0.'' @ ?ds)). is_upper_alnum (to_upper c)"
      by simp
    then show ?thesis using False
      by (simp add: generate_room_code_def toString36_def toUpperCase_def list_all_iff)
  qed
  with len show ?thesis by simp
qed

end
